theory Spec2Isabelle
  imports Main
begin

section \<open>The SDK as the program sees it\<close>

text \<open>
  \<^verbatim>\<open>main.cpp\<close> is glue over the ADLX SDK. The SDK is the environment of the program: the
  model takes it as a parameter \<open>K\<close>, a record that gives, for every SDK call the program
  makes, what that call hands back in this run (its result code and the values it leaves
  in its output arguments). The program itself is modelled by what it does to that
  environment: the sequence of SDK calls and console actions it performs, in order, with
  their arguments (a trace), and the exit code of \<^verbatim>\<open>main\<close>.

  \<^item> \<^verbatim>\<open>ADLX_RESULT\<close> is a C enumeration, an integer here. Its enumerators and the two
    macros \<^verbatim>\<open>ADLX_SUCCEEDED\<close> and \<^verbatim>\<open>ADLX_FAILED\<close> are declared in an SDK header that is
    not part of the sources at hand, so both macros are parameters (fields of \<open>K\<close>), and
    every statement below names the macro the code applies at that place.
  \<^item> Interface pointers are optional handles: \<open>None\<close> is \<^verbatim>\<open>nullptr\<close>.
  \<^item> A fan-tuning state is an opaque SDK object of type \<open>'s\<close>; the program reads and
    writes it only through \<^verbatim>\<open>GetFanSpeed\<close>, \<^verbatim>\<open>SetFanSpeed\<close>, \<^verbatim>\<open>GetTemperature\<close> and
    \<^verbatim>\<open>SetTemperature\<close>, which are parameters as well. The getters give the value found in
    the output variable after the call; the setters give the object after the call.
  \<^item> A result code that the program never looks at has no field in \<open>K\<close>: those of the four
    calls on a state, of the state list's \<^verbatim>\<open>At\<close>, of \<^verbatim>\<open>SetZeroRPMState\<close> and of
    \<^verbatim>\<open>SetFanTuningStates\<close>. The result of \<^verbatim>\<open>Terminate\<close> is printed on the failure branches,
    so it has one.
  \<^item> The fan-tuning state list is a list of such objects: \<^verbatim>\<open>Size()\<close> is its length,
    \<^verbatim>\<open>Begin()\<close> is 0, \<^verbatim>\<open>End()\<close> is its length, and \<^verbatim>\<open>At(i, &p)\<close> for a position below the
    length makes \<open>p\<close> point at the i-th object of the list, so that a write through \<open>p\<close>
    is a write to the list.
  \<^item> The program dereferences the system services, the tuning services, the GPU list
    and the state list without a null check after a call that did not fail. The model
    follows the SDK's contract there: such a call has produced its object. Where the
    program does check for \<^verbatim>\<open>nullptr\<close> (the GPU, the two fan-tuning interface pointers)
    the handle is optional in the model and the check is a branch.
\<close>

type_synonym ADLX_RESULT = int
type_synonym handle = nat

datatype 's event =
    CallInitialize
  | CallGetGPUTuningServices
  | CallGetGPUs
  | CallGPUListAt nat
  | CallIsSupportedManualFanTuning handle
  | CallGetManualFanTuning handle
  | CallQueryInterface handle
  | CallIsSupportedZeroRPM
  | CallGetZeroRPMState
  | CallSetZeroRPMState bool
  | CallGetFanTuningStates
  | CallSize
  | CallBegin
  | CallEnd
  | CallAt nat
  | CallGetFanSpeed nat
  | CallSetFanSpeed nat int
  | CallGetTemperature nat
  | CallSetTemperature nat int
  | CallIsValidFanTuningStates "'s list option"
  | CallSetFanTuningStates "'s list option"
  | CallTerminate
  | CoutRes ADLX_RESULT
  | Cout string
  | SystemPause

record 's sdk =
  ADLX_SUCCEEDED :: "ADLX_RESULT \<Rightarrow> bool"
  ADLX_FAILED :: "ADLX_RESULT \<Rightarrow> bool"
  Initialize :: ADLX_RESULT
  Terminate :: ADLX_RESULT
  GetGPUTuningServices :: ADLX_RESULT
  GetGPUs :: ADLX_RESULT
  GPUList_At :: "nat \<Rightarrow> ADLX_RESULT \<times> handle option"
  IsSupportedManualFanTuning :: "handle \<Rightarrow> ADLX_RESULT \<times> bool"
  GetManualFanTuning :: "handle \<Rightarrow> ADLX_RESULT \<times> handle option"
  QueryInterface :: "handle \<Rightarrow> handle option"
  IsSupportedZeroRPM :: "ADLX_RESULT \<times> bool"
  GetZeroRPMState :: "ADLX_RESULT \<times> bool"
  GetFanTuningStates :: "ADLX_RESULT \<times> 's list"
  GetFanSpeed :: "'s \<Rightarrow> int"
  SetFanSpeed :: "int \<Rightarrow> 's \<Rightarrow> 's"
  GetTemperature :: "'s \<Rightarrow> int"
  SetTemperature :: "int \<Rightarrow> 's \<Rightarrow> 's"
  IsValidFanTuningStates :: "'s list option \<Rightarrow> ADLX_RESULT"

section \<open>The program\<close>

subsection \<open>WaitAndExit\<close>

text \<open>
  \<^verbatim>\<open>int WaitAndExit(const char* msg, const int retCode)\<close>: prints the message when
  there is one, runs \<^verbatim>\<open>system("pause")\<close> and returns \<open>retCode\<close>.
\<close>

definition WaitAndExit :: "string option \<Rightarrow> int \<Rightarrow> 's event list \<Rightarrow> int \<times> 's event list" where
  "WaitAndExit msg retCode t =
     (let t = (case msg of Some m \<Rightarrow> t @ [Cout m] | None \<Rightarrow> t);
          t = t @ [SystemPause]
      in (retCode, t))"

subsection \<open>SetZeroRPM\<close>

text \<open>
  \<^verbatim>\<open>void SetZeroRPM(IADLXManualFanTuningPtr manualFanTuning, adlx_bool enabled)\<close>. The
  result of \<^verbatim>\<open>GetZeroRPMState\<close> and of \<^verbatim>\<open>SetZeroRPMState\<close> is stored in \<^verbatim>\<open>res\<close> and not
  looked at.
\<close>

definition SetZeroRPM :: "'s sdk \<Rightarrow> bool \<Rightarrow> 's event list \<Rightarrow> 's event list" where
  "SetZeroRPM K enabled t =
     (let (res, supported) = IsSupportedZeroRPM K;
          t = t @ [CallIsSupportedZeroRPM]
      in if ADLX_FAILED K res \<or> \<not> supported then t
         else
           (let (res, ZeroRPMenabled) = GetZeroRPMState K;
                t = t @ [CallGetZeroRPMState]
            in if ZeroRPMenabled \<noteq> enabled
               then t @ [CallSetZeroRPMState enabled]
               else t))"

subsection \<open>SetFan\<close>

definition FanSpeed :: "int list" where
  "FanSpeed = [25, 45, 50, 65, 90]"

definition Temperature :: "int list" where
  "Temperature = [45, 50, 65, 85, 95]"

text \<open>
  The body of the loop for the state \<open>oneState\<close> at position \<open>crt\<close>, after
  \<^verbatim>\<open>states->At(crt, &oneState)\<close>: read the speed, write it when it differs and read it
  again; the same for the temperature. The loop runs only inside
  \<^verbatim>\<open>if (StatesSize == 5)\<close>, from 0 up to the size, so \<open>crt\<close> is within both arrays.
\<close>

definition SetFan_state :: "'s sdk \<Rightarrow> nat \<Rightarrow> 's \<Rightarrow> 's event list \<Rightarrow> 's \<times> 's event list" where
  "SetFan_state K crt oneState t =
     (let speed = GetFanSpeed K oneState;
          t = t @ [CallGetFanSpeed crt];
          (oneState, t) =
            (if speed \<noteq> FanSpeed ! crt
             then (SetFanSpeed K (FanSpeed ! crt) oneState,
                   t @ [CallSetFanSpeed crt (FanSpeed ! crt), CallGetFanSpeed crt])
             else (oneState, t));
          temperature = GetTemperature K oneState;
          t = t @ [CallGetTemperature crt];
          (oneState, t) =
            (if temperature \<noteq> Temperature ! crt
             then (SetTemperature K (Temperature ! crt) oneState,
                   t @ [CallSetTemperature crt (Temperature ! crt), CallGetTemperature crt])
             else (oneState, t))
      in (oneState, t))"

text \<open>
  \<^verbatim>\<open>for (adlx_uint crt = states->Begin(); crt != states->End(); ++crt)\<close>. The counter
  starts at \<^verbatim>\<open>Begin()\<close>, which is 0, and goes up by one, so until the loop ends
  \<^verbatim>\<open>crt != End()\<close> is \<open>crt < length states\<close>. \<^verbatim>\<open>End()\<close> is called at every test.
\<close>

function SetFan_loop :: "'s sdk \<Rightarrow> nat \<Rightarrow> 's list \<Rightarrow> 's event list \<Rightarrow> 's list \<times> 's event list" where
  "SetFan_loop K crt states t =
     (if crt < length states
      then SetFan_loop K (crt + 1)
             (states[crt := fst (SetFan_state K crt (states ! crt) (t @ [CallEnd, CallAt crt]))])
             (snd (SetFan_state K crt (states ! crt) (t @ [CallEnd, CallAt crt])))
      else (states, t @ [CallEnd]))"
  by pat_completeness auto
termination
  by (relation "measure (\<lambda>(K, crt, states, t). length states - crt)") auto

declare SetFan_loop.simps [simp del]

text \<open>
  \<^verbatim>\<open>states\<close> is a null pointer until \<^verbatim>\<open>GetFanTuningStates\<close> succeeds. The validation and
  the commit come after the \<^verbatim>\<open>if (ADLX_SUCCEEDED(res))\<close> block, so they run with whatever
  \<^verbatim>\<open>states\<close> then is.
\<close>

definition SetFan :: "'s sdk \<Rightarrow> 's event list \<Rightarrow> 's event list" where
  "SetFan K t =
     (let (res, fetched) = GetFanTuningStates K;
          t = t @ [CallGetFanTuningStates];
          (states, t) =
            (if ADLX_SUCCEEDED K res
             then
               (let StatesSize = length fetched;
                    t = t @ [CallSize]
                in if StatesSize = 5
                   then (let (states, t) = SetFan_loop K 0 fetched (t @ [CallBegin])
                         in (Some states, t))
                   else (Some fetched, t))
             else (None, t));
          res = IsValidFanTuningStates K states;
          t = t @ [CallIsValidFanTuningStates states]
      in if ADLX_SUCCEEDED K res
         then t @ [CallSetFanTuningStates states]
         else t)"

subsection \<open>main\<close>

text \<open>
  The messages of the failure branches, each with its leading tab.
\<close>

definition msg_services :: string where
  "msg_services = CHR 0x09 # ''Get GPU tuning services failed''"

definition msg_gpus :: string where
  "msg_gpus = CHR 0x09 # ''Get GPU list failed''"

definition msg_gpu :: string where
  "msg_gpu = CHR 0x09 # ''Get GPU failed''"

definition msg_unsupported :: string where
  "msg_unsupported = CHR 0x09 # ''This GPU doesn'' @ [CHR 0x27] @ ''t supported manual fan tuning''"

definition msg_interface :: string where
  "msg_interface = CHR 0x09 # ''Get manual fan tuning interface failed''"

definition msg_tuning :: string where
  "msg_tuning = CHR 0x09 # ''Get manual fan tuning failed''"

definition msg_initialize :: string where
  "msg_initialize = CHR 0x09 # ''g_ADLXHelp initialize failed''"

text \<open>
  The block that every failure branch after a successful initialisation repeats:
  \<^verbatim>\<open>res = g_ADLXHelp.Terminate(); std::cout << "Destroy ADLX res: " << res << std::endl;
  return WaitAndExit(msg, 0);\<close>
\<close>

definition destroy_and_exit :: "'s sdk \<Rightarrow> string \<Rightarrow> 's event list \<Rightarrow> int \<times> 's event list" where
  "destroy_and_exit K msg t =
     (let res = Terminate K;
          t = t @ [CallTerminate];
          t = t @ [CoutRes res]
      in WaitAndExit (Some msg) 0 t)"

text \<open>
  \<^verbatim>\<open>int main()\<close>, as the exit code and the trace of the run. The value that \<^verbatim>\<open>res\<close> is
  initialised with is overwritten before it is read. A test of the form
  \<^verbatim>\<open>ADLX_FAILED(res) || p == nullptr\<close> is a case on \<open>if ADLX_FAILED K res then None else p\<close>:
  the failure branch is \<open>None\<close>, and the other branch goes on with the handle. The
  construction of \<^verbatim>\<open>manualFanTuning\<close> from \<^verbatim>\<open>manualFanTuningIfc\<close> is the smart pointer's
  \<^verbatim>\<open>QueryInterface\<close>.
\<close>

definition main :: "'s sdk \<Rightarrow> int \<times> 's event list" where
  "main K =
     (let res = Initialize K;
          t = [CallInitialize]
      in if ADLX_SUCCEEDED K res then
           (let res = GetGPUTuningServices K;
                t = t @ [CallGetGPUTuningServices]
            in if ADLX_FAILED K res then destroy_and_exit K msg_services t
               else
           (let res = GetGPUs K;
                t = t @ [CallGetGPUs]
            in if ADLX_FAILED K res then destroy_and_exit K msg_gpus t
               else
           (let (res, oneGPU) = GPUList_At K 0;
                t = t @ [CallGPUListAt 0]
            in case (if ADLX_FAILED K res then None else oneGPU) of
                 None \<Rightarrow> destroy_and_exit K msg_gpu t
               | Some gpu \<Rightarrow>
           (let (res, supported) = IsSupportedManualFanTuning K gpu;
                t = t @ [CallIsSupportedManualFanTuning gpu]
            in if ADLX_FAILED K res \<or> supported = False then destroy_and_exit K msg_unsupported t
               else
           (let (res, manualFanTuningIfc) = GetManualFanTuning K gpu;
                t = t @ [CallGetManualFanTuning gpu]
            in case (if ADLX_FAILED K res then None else manualFanTuningIfc) of
                 None \<Rightarrow> destroy_and_exit K msg_interface t
               | Some ifc \<Rightarrow>
           (let manualFanTuning = QueryInterface K ifc;
                t = t @ [CallQueryInterface ifc]
            in if manualFanTuning = None then destroy_and_exit K msg_tuning t
               else
           (let t = SetZeroRPM K False t;
                t = SetFan K t;
                res = Terminate K;
                t = t @ [CallTerminate]
            in (0, t))))))))
         else WaitAndExit (Some msg_initialize) 0 t)"

section \<open>Vocabulary for the statements\<close>

text \<open>
  The place of an event in the text of the program. The calls of \<^verbatim>\<open>main\<close> before the two
  tuning functions are numbered 0 to 6, the calls of \<^verbatim>\<open>SetZeroRPM\<close> 7 to 9, those of
  \<^verbatim>\<open>SetFan\<close> 10 to 15 (everything inside its loop is 13), \<^verbatim>\<open>Terminate\<close> is 16 and the
  console actions of the failure branches come last.
\<close>

fun phase :: "'s event \<Rightarrow> nat" where
  "phase CallInitialize = 0"
| "phase CallGetGPUTuningServices = 1"
| "phase CallGetGPUs = 2"
| "phase (CallGPUListAt i) = 3"
| "phase (CallIsSupportedManualFanTuning g) = 4"
| "phase (CallGetManualFanTuning g) = 5"
| "phase (CallQueryInterface h) = 6"
| "phase CallIsSupportedZeroRPM = 7"
| "phase CallGetZeroRPMState = 8"
| "phase (CallSetZeroRPMState b) = 9"
| "phase CallGetFanTuningStates = 10"
| "phase CallSize = 11"
| "phase CallBegin = 12"
| "phase CallEnd = 13"
| "phase (CallAt i) = 13"
| "phase (CallGetFanSpeed i) = 13"
| "phase (CallSetFanSpeed i v) = 13"
| "phase (CallGetTemperature i) = 13"
| "phase (CallSetTemperature i v) = 13"
| "phase (CallIsValidFanTuningStates l) = 14"
| "phase (CallSetFanTuningStates l) = 15"
| "phase CallTerminate = 16"
| "phase (CoutRes r) = 17"
| "phase (Cout m) = 18"
| "phase SystemPause = 19"

text \<open>The calls that write to the device: the zero-RPM write, the two writes to a
  fan-tuning state, and the commit of the state list.\<close>

fun is_mutation :: "'s event \<Rightarrow> bool" where
  "is_mutation (CallSetZeroRPMState b) = True"
| "is_mutation (CallSetFanSpeed i v) = True"
| "is_mutation (CallSetTemperature i v) = True"
| "is_mutation (CallSetFanTuningStates l) = True"
| "is_mutation e = False"

fun is_commit :: "'s event \<Rightarrow> bool" where
  "is_commit (CallSetFanTuningStates l) = True"
| "is_commit e = False"

text \<open>SDK calls, as opposed to console actions.\<close>

fun is_call :: "'s event \<Rightarrow> bool" where
  "is_call (CoutRes r) = False"
| "is_call (Cout m) = False"
| "is_call SystemPause = False"
| "is_call e = True"

text \<open>
  \<open>check K n\<close> is the test that \<^verbatim>\<open>main\<close> makes on what its call number \<open>n\<close> handed back,
  read as "the program goes on": \<^verbatim>\<open>ADLX_SUCCEEDED\<close> for \<^verbatim>\<open>Initialize\<close>, the negation of the
  \<^verbatim>\<open>if\<close> condition of the failure branch for the others.
\<close>

definition check :: "'s sdk \<Rightarrow> nat \<Rightarrow> bool" where
  "check K n =
     (if n = 0 then ADLX_SUCCEEDED K (Initialize K)
      else if n = 1 then \<not> ADLX_FAILED K (GetGPUTuningServices K)
      else if n = 2 then \<not> ADLX_FAILED K (GetGPUs K)
      else if n = 3 then \<not> (ADLX_FAILED K (fst (GPUList_At K 0)) \<or> snd (GPUList_At K 0) = None)
      else if n = 4 then
        (case snd (GPUList_At K 0) of None \<Rightarrow> False
         | Some gpu \<Rightarrow> \<not> (ADLX_FAILED K (fst (IsSupportedManualFanTuning K gpu))
                         \<or> snd (IsSupportedManualFanTuning K gpu) = False))
      else if n = 5 then
        (case snd (GPUList_At K 0) of None \<Rightarrow> False
         | Some gpu \<Rightarrow> \<not> (ADLX_FAILED K (fst (GetManualFanTuning K gpu))
                         \<or> snd (GetManualFanTuning K gpu) = None))
      else if n = 6 then
        (case snd (GPUList_At K 0) of None \<Rightarrow> False
         | Some gpu \<Rightarrow>
             (case snd (GetManualFanTuning K gpu) of None \<Rightarrow> False
              | Some ifc \<Rightarrow> \<not> (QueryInterface K ifc = None)))
      else True)"

text \<open>
  All seven tests of \<^verbatim>\<open>main\<close> let the program through to \<^verbatim>\<open>SetZeroRPM\<close> and \<^verbatim>\<open>SetFan\<close>,
  with \<open>gpu\<close> the GPU handle and \<open>ifc\<close> the interface pointer it works on.
\<close>

definition reaches_tuning :: "'s sdk \<Rightarrow> handle \<Rightarrow> handle \<Rightarrow> bool" where
  "reaches_tuning K gpu ifc \<longleftrightarrow>
     ADLX_SUCCEEDED K (Initialize K) \<and>
     \<not> ADLX_FAILED K (GetGPUTuningServices K) \<and>
     \<not> ADLX_FAILED K (GetGPUs K) \<and>
     \<not> ADLX_FAILED K (fst (GPUList_At K 0)) \<and> snd (GPUList_At K 0) = Some gpu \<and>
     \<not> ADLX_FAILED K (fst (IsSupportedManualFanTuning K gpu)) \<and>
     snd (IsSupportedManualFanTuning K gpu) \<and>
     \<not> ADLX_FAILED K (fst (GetManualFanTuning K gpu)) \<and>
     snd (GetManualFanTuning K gpu) = Some ifc \<and>
     QueryInterface K ifc \<noteq> None"

text \<open>The first seven events of a run that reaches the tuning functions.\<close>

definition setup_calls :: "handle \<Rightarrow> handle \<Rightarrow> 's event list" where
  "setup_calls gpu ifc =
     [CallInitialize, CallGetGPUTuningServices, CallGetGPUs, CallGPUListAt 0,
      CallIsSupportedManualFanTuning gpu, CallGetManualFanTuning gpu, CallQueryInterface ifc]"

text \<open>
  The state object as it is when its temperature is read: after the speed write, when
  there is one.
\<close>

definition after_speed :: "'s sdk \<Rightarrow> nat \<Rightarrow> 's \<Rightarrow> 's" where
  "after_speed K crt oneState =
     (if GetFanSpeed K oneState \<noteq> FanSpeed ! crt
      then SetFanSpeed K (FanSpeed ! crt) oneState else oneState)"

text \<open>
  The pointer \<^verbatim>\<open>states\<close> as \<^verbatim>\<open>SetFan\<close> hands it to \<^verbatim>\<open>IsValidFanTuningStates\<close>: null when
  \<^verbatim>\<open>GetFanTuningStates\<close> did not succeed, the fetched list after the loop when it has five
  states, the fetched list as it came otherwise.
\<close>

definition states_after_loop :: "'s sdk \<Rightarrow> 's list option" where
  "states_after_loop K =
     (if ADLX_SUCCEEDED K (fst (GetFanTuningStates K))
      then Some (if length (snd (GetFanTuningStates K)) = 5
                 then fst (SetFan_loop K 0 (snd (GetFanTuningStates K)) [])
                 else snd (GetFanTuningStates K))
      else None)"

section \<open>Example runs\<close>

text \<open>
  An SDK in which every call succeeds, with one GPU, zero RPM enabled and a five-state
  fan curve that differs from the program's. A state is a pair of speed and temperature
  and the setters store what they are given. The two macros are as the SDK's header
  defines them (success is one of the codes 0, 1 and 2); 3 and 4 are failure codes.
\<close>

definition sdk_ok :: "(int \<times> int) sdk" where
  "sdk_ok =
     \<lparr> ADLX_SUCCEEDED = (\<lambda>r. r = 0 \<or> r = 1 \<or> r = 2),
       ADLX_FAILED = (\<lambda>r. r \<noteq> 0 \<and> r \<noteq> 1 \<and> r \<noteq> 2),
       Initialize = 0,
       Terminate = 0,
       GetGPUTuningServices = 0,
       GetGPUs = 0,
       GPUList_At = (\<lambda>i. if i = 0 then (0, Some 1) else (3, None)),
       IsSupportedManualFanTuning = (\<lambda>g. (0, True)),
       GetManualFanTuning = (\<lambda>g. (0, Some 2)),
       QueryInterface = (\<lambda>h. Some 3),
       IsSupportedZeroRPM = (0, True),
       GetZeroRPMState = (0, True),
       GetFanTuningStates = (0, [(20, 45), (30, 55), (50, 65), (70, 80), (100, 95)]),
       GetFanSpeed = fst,
       SetFanSpeed = (\<lambda>v s. (v, snd s)),
       GetTemperature = snd,
       SetTemperature = (\<lambda>v s. (fst s, v)),
       IsValidFanTuningStates = (\<lambda>l. if l = None then 4 else 0) \<rparr>"

text \<open>The same SDK, but fetching the GPU list fails.\<close>

definition sdk_no_gpus :: "(int \<times> int) sdk" where
  "sdk_no_gpus = sdk_ok \<lparr> GetGPUs := 3 \<rparr>"

text \<open>The same SDK, but the GPU list has no element 0.\<close>

definition sdk_no_gpu :: "(int \<times> int) sdk" where
  "sdk_no_gpu = sdk_ok \<lparr> GPUList_At := (\<lambda>i. (3, None)) \<rparr>"

text \<open>The same SDK, but manual fan tuning is reported as not supported.\<close>

definition sdk_unsupported :: "(int \<times> int) sdk" where
  "sdk_unsupported = sdk_ok \<lparr> IsSupportedManualFanTuning := (\<lambda>g. (0, False)) \<rparr>"

text \<open>The same SDK, but fetching the manual-fan-tuning interface fails.\<close>

definition sdk_no_interface :: "(int \<times> int) sdk" where
  "sdk_no_interface = sdk_ok \<lparr> GetManualFanTuning := (\<lambda>g. (3, None)) \<rparr>"

text \<open>The same SDK, but fetching the fan-tuning states fails.\<close>

definition sdk_no_states :: "(int \<times> int) sdk" where
  "sdk_no_states = sdk_ok \<lparr> GetFanTuningStates := (3, []) \<rparr>"

text \<open>The same SDK, but the fan curve has four states.\<close>

definition sdk_four_states :: "(int \<times> int) sdk" where
  "sdk_four_states =
     sdk_ok \<lparr> GetFanTuningStates := (0, [(20, 45), (30, 55), (50, 65), (70, 80)]) \<rparr>"

text \<open>The same SDK, but zero RPM is reported as not supported.\<close>

definition sdk_no_zero_rpm :: "(int \<times> int) sdk" where
  "sdk_no_zero_rpm = sdk_ok \<lparr> IsSupportedZeroRPM := (0, False) \<rparr>"

text \<open>
  The same SDK, but reading the zero-RPM state fails and leaves the output variable at
  the \<^verbatim>\<open>false\<close> it was initialised with.
\<close>

definition sdk_zero_rpm_read_fails :: "(int \<times> int) sdk" where
  "sdk_zero_rpm_read_fails = sdk_ok \<lparr> GetZeroRPMState := (3, False) \<rparr>"

section \<open>What each function does, in closed form\<close>

lemma WaitAndExit_eq:
  "WaitAndExit (Some m) c t = (c, t @ [Cout m, SystemPause])"
  by (simp add: WaitAndExit_def)

lemma destroy_and_exit_eq:
  "destroy_and_exit K m t = (0, t @ [CallTerminate, CoutRes (Terminate K), Cout m, SystemPause])"
  by (simp add: destroy_and_exit_def WaitAndExit_eq)

lemma SetZeroRPM_events:
  "SetZeroRPM K en t =
     t @ CallIsSupportedZeroRPM #
       (if ADLX_FAILED K (fst (IsSupportedZeroRPM K)) \<or> \<not> snd (IsSupportedZeroRPM K) then []
        else CallGetZeroRPMState #
          (if snd (GetZeroRPMState K) \<noteq> en then [CallSetZeroRPMState en] else []))"
  by (simp add: SetZeroRPM_def Let_def split: prod.splits)

lemma SetFan_state_fst:
  "fst (SetFan_state K crt s t) =
     (if GetTemperature K (after_speed K crt s) \<noteq> Temperature ! crt
      then SetTemperature K (Temperature ! crt) (after_speed K crt s)
      else after_speed K crt s)"
  by (simp add: SetFan_state_def after_speed_def Let_def)

lemma SetFan_state_snd:
  "snd (SetFan_state K crt s t) =
     t @ CallGetFanSpeed crt #
       (if GetFanSpeed K s \<noteq> FanSpeed ! crt
        then [CallSetFanSpeed crt (FanSpeed ! crt), CallGetFanSpeed crt] else []) @
       CallGetTemperature crt #
       (if GetTemperature K (after_speed K crt s) \<noteq> Temperature ! crt
        then [CallSetTemperature crt (Temperature ! crt), CallGetTemperature crt] else [])"
  by (simp add: SetFan_state_def after_speed_def Let_def)

lemma SetFan_loop_stop:
  "\<not> crt < length sts \<Longrightarrow> SetFan_loop K crt sts t = (sts, t @ [CallEnd])"
  by (subst SetFan_loop.simps) simp

lemma SetFan_loop_step:
  "crt < length sts \<Longrightarrow>
   SetFan_loop K crt sts t =
     SetFan_loop K (Suc crt) (sts[crt := fst (SetFan_state K crt (sts ! crt) [])])
       (t @ CallEnd # CallAt crt # snd (SetFan_state K crt (sts ! crt) []))"
  by (subst SetFan_loop.simps) (simp add: SetFan_state_fst SetFan_state_snd)

text \<open>
  The loop leaves the states below \<open>crt\<close> as they are and handles each later state once,
  by its own body: an iteration writes only to the state of its position.
\<close>

lemma SetFan_loop_fst:
  "fst (SetFan_loop K crt sts t) =
     take crt sts @ map (\<lambda>i. fst (SetFan_state K i (sts ! i) [])) [crt..<length sts]"
proof (induction "length sts - crt" arbitrary: crt sts t)
  case 0
  then show ?case by (simp add: SetFan_loop_stop)
next
  case (Suc n)
  let ?x = "fst (SetFan_state K crt (sts ! crt) [])"
  from Suc.hyps(2) have lt: "crt < length sts" and n: "n = length (sts[crt := ?x]) - Suc crt"
    by simp_all
  have tk: "take (Suc crt) (sts[crt := ?x]) = take crt sts @ [?x]"
    using lt by (simp add: take_Suc_conv_app_nth)
  have eq: "map (\<lambda>i. fst (SetFan_state K i (sts[crt := ?x] ! i) [])) [Suc crt..<length sts]
      = map (\<lambda>i. fst (SetFan_state K i (sts ! i) [])) [Suc crt..<length sts]"
    by (rule map_cong) simp_all
  show ?case
    using lt by (simp add: SetFan_loop_step Suc.hyps(1) [OF n] upt_conv_Cons tk eq)
qed

lemma SetFan_loop_snd:
  "snd (SetFan_loop K crt sts t) =
     t @ concat (map (\<lambda>i. CallEnd # CallAt i # snd (SetFan_state K i (sts ! i) [])) [crt..<length sts])
       @ [CallEnd]"
proof (induction "length sts - crt" arbitrary: crt sts t)
  case 0
  then show ?case by (simp add: SetFan_loop_stop)
next
  case (Suc n)
  let ?x = "fst (SetFan_state K crt (sts ! crt) [])"
  from Suc.hyps(2) have lt: "crt < length sts" and n: "n = length (sts[crt := ?x]) - Suc crt"
    by simp_all
  have eq: "map (\<lambda>i. CallEnd # CallAt i # snd (SetFan_state K i (sts[crt := ?x] ! i) [])) [Suc crt..<length sts]
      = map (\<lambda>i. CallEnd # CallAt i # snd (SetFan_state K i (sts ! i) [])) [Suc crt..<length sts]"
    by (rule map_cong) simp_all
  show ?case
    using lt by (simp add: SetFan_loop_step Suc.hyps(1) [OF n] upt_conv_Cons eq)
qed

lemma SetFan_loop_fst_nil:
  "NO_MATCH ([]::'s event list) t \<Longrightarrow> fst (SetFan_loop K crt sts t) = fst (SetFan_loop K crt sts [])"
  by (simp add: SetFan_loop_fst)

lemma SetFan_loop_snd_nil:
  "NO_MATCH ([]::'s event list) t \<Longrightarrow>
   snd (SetFan_loop K crt sts t) = t @ snd (SetFan_loop K crt sts [])"
  by (simp add: SetFan_loop_snd)

lemma SetFan_events:
  "SetFan K t =
     t @ CallGetFanTuningStates #
       (if ADLX_SUCCEEDED K (fst (GetFanTuningStates K))
        then CallSize #
          (if length (snd (GetFanTuningStates K)) = 5
           then CallBegin # snd (SetFan_loop K 0 (snd (GetFanTuningStates K)) [])
           else [])
        else []) @
       CallIsValidFanTuningStates (states_after_loop K) #
       (if ADLX_SUCCEEDED K (IsValidFanTuningStates K (states_after_loop K))
        then [CallSetFanTuningStates (states_after_loop K)] else [])"
  by (simp add: SetFan_def states_after_loop_def Let_def case_prod_beta
      SetFan_loop_snd_nil SetFan_loop_fst_nil)

lemma SetZeroRPM_nil:
  "NO_MATCH ([]::'s event list) t \<Longrightarrow> SetZeroRPM K en t = t @ SetZeroRPM K en []"
  by (simp add: SetZeroRPM_events)

lemma SetFan_nil:
  "NO_MATCH ([]::'s event list) t \<Longrightarrow> SetFan K t = t @ SetFan K []"
  by (simp add: SetFan_events)

subsection \<open>The branches of main\<close>

text \<open>
  \<^verbatim>\<open>main\<close> by its seven tests. The two \<open>None\<close> branches are never taken: once test 3
  (test 5) has passed, the handle is there.
\<close>

lemma main_unfold:
  "main K =
     (if \<not> check K 0 then (0, [CallInitialize, Cout msg_initialize, SystemPause])
      else if \<not> check K 1 then destroy_and_exit K msg_services [CallInitialize, CallGetGPUTuningServices]
      else if \<not> check K 2 then destroy_and_exit K msg_gpus [CallInitialize, CallGetGPUTuningServices, CallGetGPUs]
      else if \<not> check K 3 then destroy_and_exit K msg_gpu (take 4 (setup_calls 0 0))
      else case snd (GPUList_At K 0) of None \<Rightarrow> (0, []) | Some gpu \<Rightarrow>
        if \<not> check K 4 then destroy_and_exit K msg_unsupported (take 5 (setup_calls gpu 0))
        else if \<not> check K 5 then destroy_and_exit K msg_interface (take 6 (setup_calls gpu 0))
        else case snd (GetManualFanTuning K gpu) of None \<Rightarrow> (0, []) | Some ifc \<Rightarrow>
          if \<not> check K 6 then destroy_and_exit K msg_tuning (setup_calls gpu ifc)
          else (0, setup_calls gpu ifc @ SetZeroRPM K False [] @ SetFan K [] @ [CallTerminate]))"
  by (simp add: main_def check_def setup_calls_def Let_def case_prod_beta WaitAndExit_eq
      SetZeroRPM_nil SetFan_nil split: option.splits)

lemma main_reached:
  assumes "reaches_tuning K gpu ifc"
  shows "main K = (0, setup_calls gpu ifc @ SetZeroRPM K False [] @ SetFan K [] @ [CallTerminate])"
  using assms by (simp add: main_unfold reaches_tuning_def check_def)

text \<open>
  A run of \<^verbatim>\<open>main\<close> takes exactly one of eight ways: the first test that stops it, or none.
\<close>

lemma main_cases [case_names init services gpus gpu unsupported interface tuning reached]:
  obtains
    (init) "\<not> check K 0"
      "main K = (0, [CallInitialize, Cout msg_initialize, SystemPause])"
  | (services) "check K 0" "\<not> check K 1"
      "main K = (0, take 2 (setup_calls 0 0) @
         [CallTerminate, CoutRes (Terminate K), Cout msg_services, SystemPause])"
  | (gpus) "check K 0" "check K 1" "\<not> check K 2"
      "main K = (0, take 3 (setup_calls 0 0) @
         [CallTerminate, CoutRes (Terminate K), Cout msg_gpus, SystemPause])"
  | (gpu) "check K 0" "check K 1" "check K 2" "\<not> check K 3"
      "main K = (0, take 4 (setup_calls 0 0) @
         [CallTerminate, CoutRes (Terminate K), Cout msg_gpu, SystemPause])"
  | (unsupported) gpu where "check K 0" "check K 1" "check K 2" "check K 3"
      "snd (GPUList_At K 0) = Some gpu" "\<not> check K 4"
      "main K = (0, take 5 (setup_calls gpu 0) @
         [CallTerminate, CoutRes (Terminate K), Cout msg_unsupported, SystemPause])"
  | (interface) gpu where "check K 0" "check K 1" "check K 2" "check K 3"
      "snd (GPUList_At K 0) = Some gpu" "check K 4" "\<not> check K 5"
      "main K = (0, take 6 (setup_calls gpu 0) @
         [CallTerminate, CoutRes (Terminate K), Cout msg_interface, SystemPause])"
  | (tuning) gpu ifc where "check K 0" "check K 1" "check K 2" "check K 3"
      "snd (GPUList_At K 0) = Some gpu" "check K 4" "check K 5"
      "snd (GetManualFanTuning K gpu) = Some ifc" "\<not> check K 6"
      "main K = (0, setup_calls gpu ifc @
         [CallTerminate, CoutRes (Terminate K), Cout msg_tuning, SystemPause])"
  | (reached) gpu ifc where "check K 0" "check K 1" "check K 2" "check K 3"
      "check K 4" "check K 5" "check K 6" "reaches_tuning K gpu ifc"
      "main K = (0, setup_calls gpu ifc @ SetZeroRPM K False [] @ SetFan K [] @ [CallTerminate])"
proof -
  consider "\<not> check K 0" | "check K 0" "\<not> check K 1" | "check K 0" "check K 1" "\<not> check K 2"
    | "check K 0" "check K 1" "check K 2" "\<not> check K 3"
    | "check K 0" "check K 1" "check K 2" "check K 3" "\<not> check K 4"
    | "check K 0" "check K 1" "check K 2" "check K 3" "check K 4" "\<not> check K 5"
    | "check K 0" "check K 1" "check K 2" "check K 3" "check K 4" "check K 5" "\<not> check K 6"
    | "check K 0" "check K 1" "check K 2" "check K 3" "check K 4" "check K 5" "check K 6"
    by blast
  then show thesis
  proof cases
    case 1
    then show ?thesis by (intro init) (simp_all add: main_unfold)
  next
    case 2
    then show ?thesis
      by (intro services) (simp_all add: main_unfold destroy_and_exit_eq setup_calls_def)
  next
    case 3
    then show ?thesis
      by (intro gpus) (simp_all add: main_unfold destroy_and_exit_eq setup_calls_def)
  next
    case 4
    then show ?thesis
      by (intro gpu) (simp_all add: main_unfold destroy_and_exit_eq setup_calls_def)
  next
    case 5
    from \<open>check K 3\<close> obtain g where g: "snd (GPUList_At K 0) = Some g"
      by (auto simp: check_def)
    with 5 show ?thesis
      by (intro unsupported [of g]) (simp_all add: main_unfold destroy_and_exit_eq setup_calls_def)
  next
    case 6
    from \<open>check K 3\<close> obtain g where g: "snd (GPUList_At K 0) = Some g"
      by (auto simp: check_def)
    with 6 show ?thesis
      by (intro interface [of g]) (simp_all add: main_unfold destroy_and_exit_eq setup_calls_def)
  next
    case 7
    from \<open>check K 3\<close> obtain g where g: "snd (GPUList_At K 0) = Some g"
      by (auto simp: check_def)
    from \<open>check K 5\<close> g obtain h where h: "snd (GetManualFanTuning K g) = Some h"
      by (auto simp: check_def)
    from 7 g h show ?thesis
      by (intro tuning [of g h]) (simp_all add: main_unfold destroy_and_exit_eq setup_calls_def)
  next
    case 8
    from \<open>check K 3\<close> obtain g where g: "snd (GPUList_At K 0) = Some g"
      by (auto simp: check_def)
    from \<open>check K 5\<close> g obtain h where h: "snd (GetManualFanTuning K g) = Some h"
      by (auto simp: check_def)
    from 8 g h have r: "reaches_tuning K g h"
      by (simp add: reaches_tuning_def check_def)
    from 8 r show ?thesis
      by (intro reached [of g h]) (simp_all add: main_reached)
  qed
qed

subsection \<open>Where the events of the tuning functions fall\<close>

lemma phase_SetZeroRPM:
  "e \<in> set (SetZeroRPM K en []) \<Longrightarrow> 7 \<le> phase e \<and> phase e \<le> 9"
  by (auto simp: SetZeroRPM_events split: if_splits)

lemma sorted_SetZeroRPM: "sorted (map phase (SetZeroRPM K en []))"
  by (simp add: SetZeroRPM_events)

lemma phase_SetFan_state: "e \<in> set (snd (SetFan_state K i s [])) \<Longrightarrow> phase e = 13"
  by (auto simp: SetFan_state_snd split: if_splits)

lemma phase_SetFan_loop: "e \<in> set (snd (SetFan_loop K crt sts [])) \<Longrightarrow> phase e = 13"
  by (auto simp: SetFan_loop_snd split: if_splits dest: phase_SetFan_state)

lemma sorted_const: "(\<And>x. x \<in> set xs \<Longrightarrow> f x = (c::nat)) \<Longrightarrow> sorted (map f xs)"
  by (induction xs) auto

lemma phase_SetFan: "e \<in> set (SetFan K []) \<Longrightarrow> 10 \<le> phase e \<and> phase e \<le> 15"
  by (auto simp: SetFan_events phase_SetFan_loop split: if_splits)

lemma sorted_SetFan: "sorted (map phase (SetFan K []))"
  by (auto simp: SetFan_events sorted_append phase_SetFan_loop sorted_const [of _ phase 13])

lemma Terminate_notin_tuning:
  "CallTerminate \<notin> set (SetZeroRPM K en [])" "CallTerminate \<notin> set (SetFan K [])"
  using phase_SetZeroRPM [of CallTerminate K en] phase_SetFan [of CallTerminate K] by auto

lemma is_call_tuning:
  "e \<in> set (SetZeroRPM K en []) \<Longrightarrow> is_call e" "e \<in> set (SetFan K []) \<Longrightarrow> is_call e"
  using phase_SetZeroRPM [of e K en] phase_SetFan [of e K] by (cases e; auto)+

lemma lt7: "(n::nat) < 7 \<longleftrightarrow> n = 0 \<or> n = 1 \<or> n = 2 \<or> n = 3 \<or> n = 4 \<or> n = 5 \<or> n = 6"
  by arith

lemma main_stops:
  assumes "\<not> check K n" "n < 7" "e \<in> set (snd (main K))"
  shows "phase e \<le> n \<or> 16 \<le> phase e"
proof (cases K rule: main_cases)
  case reached
  with assms(1,2) show ?thesis by (auto simp: lt7)
qed (use assms in \<open>auto simp: lt7 setup_calls_def\<close>)

lemma main_sorted: "sorted (map phase (snd (main K)))"
proof (cases K rule: main_cases)
  case (reached gpu ifc)
  then show ?thesis
    by (auto simp: sorted_append sorted_SetZeroRPM sorted_SetFan setup_calls_def
        dest!: phase_SetZeroRPM phase_SetFan)
qed (simp_all add: setup_calls_def)

lemma main_returns_0: "fst (main K) = 0"
  by (cases K rule: main_cases) simp_all

lemma mutation_phase: "is_mutation e \<Longrightarrow> phase e = 9 \<or> phase e = 13 \<or> phase e = 15"
  by (cases e) simp_all

lemma phase_setup_calls: "e \<in> set (setup_calls gpu ifc) \<Longrightarrow> phase e \<le> 6"
  by (auto simp: setup_calls_def)

lemma in_main_tuning:
  assumes "e \<in> set (snd (main K))" "7 \<le> phase e" "phase e \<le> 15"
  shows "e \<in> set (SetZeroRPM K False []) \<or> e \<in> set (SetFan K [])"
  using assms by (cases K rule: main_cases) (auto simp: setup_calls_def)

subsection \<open>Where the writes come from\<close>

lemma SetZeroRPMState_in_SetZeroRPM:
  "CallSetZeroRPMState b \<in> set (SetZeroRPM K en []) \<Longrightarrow>
   b = en \<and> snd (GetZeroRPMState K) \<noteq> en \<and>
   \<not> ADLX_FAILED K (fst (IsSupportedZeroRPM K)) \<and> snd (IsSupportedZeroRPM K)"
  by (auto simp: SetZeroRPM_events split: if_splits)

lemma SetFanSpeed_in_loop:
  "CallSetFanSpeed i v \<in> set (snd (SetFan_loop K crt sts [])) \<Longrightarrow>
   crt \<le> i \<and> i < length sts \<and> v = FanSpeed ! i \<and> GetFanSpeed K (sts ! i) \<noteq> v"
  by (auto simp: SetFan_loop_snd SetFan_state_snd split: if_splits)

lemma SetTemperature_in_loop:
  "CallSetTemperature i v \<in> set (snd (SetFan_loop K crt sts [])) \<Longrightarrow>
   crt \<le> i \<and> i < length sts \<and> v = Temperature ! i \<and>
   GetTemperature K (after_speed K i (sts ! i)) \<noteq> v"
  by (auto simp: SetFan_loop_snd SetFan_state_snd split: if_splits)

lemma SetFanSpeed_in_SetFan:
  "CallSetFanSpeed i v \<in> set (SetFan K []) \<Longrightarrow>
   ADLX_SUCCEEDED K (fst (GetFanTuningStates K)) \<and> length (snd (GetFanTuningStates K)) = 5 \<and>
   i < 5 \<and> v = FanSpeed ! i \<and> GetFanSpeed K (snd (GetFanTuningStates K) ! i) \<noteq> v"
  by (auto simp: SetFan_events split: if_splits dest: SetFanSpeed_in_loop)

lemma SetTemperature_in_SetFan:
  "CallSetTemperature i v \<in> set (SetFan K []) \<Longrightarrow>
   ADLX_SUCCEEDED K (fst (GetFanTuningStates K)) \<and> length (snd (GetFanTuningStates K)) = 5 \<and>
   i < 5 \<and> v = Temperature ! i \<and>
   GetTemperature K (after_speed K i (snd (GetFanTuningStates K) ! i)) \<noteq> v"
  by (auto simp: SetFan_events split: if_splits dest: SetTemperature_in_loop)

lemma SetFanSpeed_called:
  "crt \<le> i \<Longrightarrow> i < length sts \<Longrightarrow> GetFanSpeed K (sts ! i) \<noteq> FanSpeed ! i \<Longrightarrow>
   CallSetFanSpeed i (FanSpeed ! i) \<in> set (snd (SetFan_loop K crt sts []))"
  by (auto simp: SetFan_loop_snd SetFan_state_snd intro!: bexI [of _ i])

lemma SetTemperature_called:
  "crt \<le> i \<Longrightarrow> i < length sts \<Longrightarrow>
   GetTemperature K (after_speed K i (sts ! i)) \<noteq> Temperature ! i \<Longrightarrow>
   CallSetTemperature i (Temperature ! i) \<in> set (snd (SetFan_loop K crt sts []))"
  by (auto simp: SetFan_loop_snd SetFan_state_snd intro!: bexI [of _ i])

text \<open>
  With setters that store what they are given (and a temperature write that leaves the
  speed alone), a state reads as the target pair of its position after the loop body.
\<close>

lemma tuned_state:
  assumes "\<forall>v s. GetFanSpeed K (SetFanSpeed K v s) = v"
    and "\<forall>v s. GetTemperature K (SetTemperature K v s) = v"
    and "\<forall>v s. GetFanSpeed K (SetTemperature K v s) = GetFanSpeed K s"
  shows "GetFanSpeed K (fst (SetFan_state K i s t)) = FanSpeed ! i"
    and "GetTemperature K (fst (SetFan_state K i s t)) = Temperature ! i"
  using assms by (simp_all add: SetFan_state_fst after_speed_def)

lemma upt5: "[0..<5] = [0, 1, 2, 3, 4]"
  by (simp add: upt_rec)

subsection \<open>The example runs, evaluated\<close>

lemma run_ok:
  "main sdk_ok = (0, [CallInitialize, CallGetGPUTuningServices, CallGetGPUs,
      CallGPUListAt 0, CallIsSupportedManualFanTuning 1,
      CallGetManualFanTuning 1, CallQueryInterface 2,
      CallIsSupportedZeroRPM, CallGetZeroRPMState,
      CallSetZeroRPMState False, CallGetFanTuningStates, CallSize,
      CallBegin, CallEnd, CallAt 0, CallGetFanSpeed 0, CallSetFanSpeed 0 25,
      CallGetFanSpeed 0, CallGetTemperature 0, CallEnd, CallAt 1,
      CallGetFanSpeed 1, CallSetFanSpeed 1 45, CallGetFanSpeed 1,
      CallGetTemperature 1, CallSetTemperature 1 50, CallGetTemperature 1,
      CallEnd, CallAt 2, CallGetFanSpeed 2, CallGetTemperature 2, CallEnd,
      CallAt 3, CallGetFanSpeed 3, CallSetFanSpeed 3 65, CallGetFanSpeed 3,
      CallGetTemperature 3, CallSetTemperature 3 85, CallGetTemperature 3,
      CallEnd, CallAt 4, CallGetFanSpeed 4, CallSetFanSpeed 4 90,
      CallGetFanSpeed 4, CallGetTemperature 4, CallEnd,
      CallIsValidFanTuningStates
       (Some [(25, 45), (45, 50), (50, 65), (65, 85), (90, 95)]),
      CallSetFanTuningStates
       (Some [(25, 45), (45, 50), (50, 65), (65, 85), (90, 95)]),
      CallTerminate])"
  by (simp add: main_def sdk_ok_def Let_def SetZeroRPM_def SetFan_def SetFan_loop.simps
      SetFan_state_def FanSpeed_def Temperature_def)

lemma run_no_gpus:
  "main sdk_no_gpus = (0, [CallInitialize, CallGetGPUTuningServices, CallGetGPUs,
      CallTerminate, CoutRes 0, Cout msg_gpus, SystemPause])"
  by (simp add: main_def sdk_no_gpus_def sdk_ok_def Let_def destroy_and_exit_def
      WaitAndExit_def)

lemma run_no_gpu:
  "main sdk_no_gpu = (0, [CallInitialize, CallGetGPUTuningServices, CallGetGPUs,
      CallGPUListAt 0, CallTerminate, CoutRes 0, Cout msg_gpu, SystemPause])"
  by (simp add: main_def sdk_no_gpu_def sdk_ok_def Let_def destroy_and_exit_def
      WaitAndExit_def)

lemma run_unsupported:
  "main sdk_unsupported = (0, [CallInitialize, CallGetGPUTuningServices, CallGetGPUs,
      CallGPUListAt 0, CallIsSupportedManualFanTuning 1,
      CallTerminate, CoutRes 0, Cout msg_unsupported, SystemPause])"
  by (simp add: main_def sdk_unsupported_def sdk_ok_def Let_def destroy_and_exit_def
      WaitAndExit_def)

lemma run_no_interface:
  "main sdk_no_interface = (0, [CallInitialize, CallGetGPUTuningServices, CallGetGPUs,
      CallGPUListAt 0, CallIsSupportedManualFanTuning 1, CallGetManualFanTuning 1,
      CallTerminate, CoutRes 0, Cout msg_interface, SystemPause])"
  by (simp add: main_def sdk_no_interface_def sdk_ok_def Let_def destroy_and_exit_def
      WaitAndExit_def)

lemma run_no_states:
  "main sdk_no_states = (0, [CallInitialize, CallGetGPUTuningServices, CallGetGPUs,
      CallGPUListAt 0, CallIsSupportedManualFanTuning 1,
      CallGetManualFanTuning 1, CallQueryInterface 2,
      CallIsSupportedZeroRPM, CallGetZeroRPMState,
      CallSetZeroRPMState False, CallGetFanTuningStates,
      CallIsValidFanTuningStates None, CallTerminate])"
  by (simp add: main_def sdk_no_states_def sdk_ok_def Let_def SetZeroRPM_def SetFan_def)

lemma SetFan_four_states:
  "SetFan sdk_four_states [] =
     [CallGetFanTuningStates, CallSize,
      CallIsValidFanTuningStates (Some [(20, 45), (30, 55), (50, 65), (70, 80)]),
      CallSetFanTuningStates (Some [(20, 45), (30, 55), (50, 65), (70, 80)])]"
  by (simp add: sdk_four_states_def sdk_ok_def Let_def SetFan_def)

lemma SetFan_ok:
  "SetFan sdk_ok [] =
     [CallGetFanTuningStates, CallSize,
      CallBegin, CallEnd, CallAt 0, CallGetFanSpeed 0, CallSetFanSpeed 0 25,
      CallGetFanSpeed 0, CallGetTemperature 0, CallEnd, CallAt 1,
      CallGetFanSpeed 1, CallSetFanSpeed 1 45, CallGetFanSpeed 1,
      CallGetTemperature 1, CallSetTemperature 1 50, CallGetTemperature 1,
      CallEnd, CallAt 2, CallGetFanSpeed 2, CallGetTemperature 2, CallEnd,
      CallAt 3, CallGetFanSpeed 3, CallSetFanSpeed 3 65, CallGetFanSpeed 3,
      CallGetTemperature 3, CallSetTemperature 3 85, CallGetTemperature 3,
      CallEnd, CallAt 4, CallGetFanSpeed 4, CallSetFanSpeed 4 90,
      CallGetFanSpeed 4, CallGetTemperature 4, CallEnd,
      CallIsValidFanTuningStates
       (Some [(25, 45), (45, 50), (50, 65), (65, 85), (90, 95)]),
      CallSetFanTuningStates
       (Some [(25, 45), (45, 50), (50, 65), (65, 85), (90, 95)])]"
  by (simp add: sdk_ok_def Let_def SetFan_def SetFan_loop.simps SetFan_state_def
      FanSpeed_def Temperature_def)

lemma SetZeroRPM_ok:
  "SetZeroRPM sdk_ok False [] =
     [CallIsSupportedZeroRPM, CallGetZeroRPMState, CallSetZeroRPMState False]"
  by (simp add: sdk_ok_def Let_def SetZeroRPM_def)

lemma run_zero_rpm_read_fails:
  "take 11 (snd (main sdk_zero_rpm_read_fails)) =
     [CallInitialize, CallGetGPUTuningServices, CallGetGPUs,
      CallGPUListAt 0, CallIsSupportedManualFanTuning 1,
      CallGetManualFanTuning 1, CallQueryInterface 2,
      CallIsSupportedZeroRPM, CallGetZeroRPMState,
      CallGetFanTuningStates, CallSize]"
  "list_ex is_mutation (take 10 (snd (main sdk_zero_rpm_read_fails))) = False"
  "CallSetZeroRPMState False \<notin> set (snd (main sdk_zero_rpm_read_fails))"
  "CallIsSupportedZeroRPM \<in> set (snd (main sdk_zero_rpm_read_fails))"
  by (simp_all add: main_def sdk_zero_rpm_read_fails_def sdk_ok_def Let_def SetZeroRPM_def
      SetFan_def SetFan_loop.simps SetFan_state_def FanSpeed_def Temperature_def)

section \<open>The claims\<close>

subsection \<open>C1: the fixed fan curve\<close>

text \<open>
  As stated, C1 promises the five writes and the commit for every run in which
  initialisation, the retrieval of the GPU and the support check succeed. The program has
  more gates than these three. In the run of \<open>sdk_no_interface\<close> all three succeed (and
  so do the calls for the tuning services and the GPU list), fetching the
  manual-fan-tuning interface fails, and the program writes nothing and commits nothing.
\<close>

theorem custom_curve_counterexample:
  "ADLX_SUCCEEDED sdk_no_interface (Initialize sdk_no_interface) \<and>
   \<not> ADLX_FAILED sdk_no_interface (GetGPUTuningServices sdk_no_interface) \<and>
   \<not> ADLX_FAILED sdk_no_interface (GetGPUs sdk_no_interface) \<and>
   \<not> ADLX_FAILED sdk_no_interface (fst (GPUList_At sdk_no_interface 0)) \<and>
   snd (GPUList_At sdk_no_interface 0) = Some 1 \<and>
   \<not> ADLX_FAILED sdk_no_interface (fst (IsSupportedManualFanTuning sdk_no_interface 1)) \<and>
   snd (IsSupportedManualFanTuning sdk_no_interface 1) \<and>
   \<not> list_ex is_mutation (snd (main sdk_no_interface))"
  by (simp add: run_no_interface) (simp add: sdk_no_interface_def sdk_ok_def)

text \<open>
  C1, amended. In every run in which all seven tests of \<^verbatim>\<open>main\<close> pass (initialisation, the
  tuning services, the GPU list, GPU 0, the support check, the manual-fan-tuning
  interface and its cast), \<^verbatim>\<open>GetFanTuningStates\<close> succeeds with a list of exactly five
  states and \<^verbatim>\<open>IsValidFanTuningStates\<close> accepts the list the program hands it, the program
  writes speed 25, 45, 50, 65, 90 and temperature 45, 50, 65, 85, 95 to the states 0 to 4
  wherever the value read differs, then validates and commits that list, then terminates.
  This much holds whatever the setters of the SDK do. When, in addition, the setters
  store the value they are given and \<^verbatim>\<open>SetTemperature\<close> leaves the speed of the state as it
  is, the committed list reads as the five pairs (25, 45), (45, 50), (50, 65), (65, 85),
  (90, 95).
\<close>

theorem custom_curve_applied:
  assumes "reaches_tuning K gpu ifc"
    and "ADLX_SUCCEEDED K (fst (GetFanTuningStates K))"
    and "length (snd (GetFanTuningStates K)) = 5"
    and "ADLX_SUCCEEDED K (IsValidFanTuningStates K (states_after_loop K))"
  shows "\<exists>l pre.
     snd (main K) =
       pre @ [CallIsValidFanTuningStates (Some l), CallSetFanTuningStates (Some l), CallTerminate] \<and>
     (\<forall>i < 5. GetFanSpeed K (snd (GetFanTuningStates K) ! i) \<noteq> FanSpeed ! i \<longrightarrow>
        CallSetFanSpeed i (FanSpeed ! i) \<in> set pre) \<and>
     (\<forall>i < 5. GetTemperature K (after_speed K i (snd (GetFanTuningStates K) ! i)) \<noteq> Temperature ! i \<longrightarrow>
        CallSetTemperature i (Temperature ! i) \<in> set pre) \<and>
     ((\<forall>v s. GetFanSpeed K (SetFanSpeed K v s) = v) \<and>
      (\<forall>v s. GetTemperature K (SetTemperature K v s) = v) \<and>
      (\<forall>v s. GetFanSpeed K (SetTemperature K v s) = GetFanSpeed K s) \<longrightarrow>
      map (\<lambda>s. (GetFanSpeed K s, GetTemperature K s)) l =
        [(25, 45), (45, 50), (50, 65), (65, 85), (90, 95)])"
proof -
  let ?fetched = "snd (GetFanTuningStates K)"
  let ?l = "fst (SetFan_loop K 0 ?fetched [])"
  let ?pre = "setup_calls gpu ifc @ SetZeroRPM K False [] @
      CallGetFanTuningStates # CallSize # CallBegin # snd (SetFan_loop K 0 ?fetched [])"
  have sal: "states_after_loop K = Some ?l"
    using assms(2,3) by (simp add: states_after_loop_def)
  have tr: "snd (main K) =
      ?pre @ [CallIsValidFanTuningStates (Some ?l), CallSetFanTuningStates (Some ?l), CallTerminate]"
    using assms(2,3,4) by (simp add: main_reached [OF assms(1)] SetFan_events sal)
  have l: "?l = map (\<lambda>i. fst (SetFan_state K i (?fetched ! i) [])) [0..<5]"
    using assms(3) by (simp add: SetFan_loop_fst)
  have pairs: "map (\<lambda>s. (GetFanSpeed K s, GetTemperature K s)) ?l =
      [(25, 45), (45, 50), (50, 65), (65, 85), (90, 95)]"
    if "(\<forall>v s. GetFanSpeed K (SetFanSpeed K v s) = v) \<and>
      (\<forall>v s. GetTemperature K (SetTemperature K v s) = v) \<and>
      (\<forall>v s. GetFanSpeed K (SetTemperature K v s) = GetFanSpeed K s)"
  proof -
    from that have a: "\<forall>v s. GetFanSpeed K (SetFanSpeed K v s) = v"
      and b: "\<forall>v s. GetTemperature K (SetTemperature K v s) = v"
      and c: "\<forall>v s. GetFanSpeed K (SetTemperature K v s) = GetFanSpeed K s"
      by simp_all
    show ?thesis
      by (simp add: l upt5 tuned_state [OF a b c] FanSpeed_def Temperature_def)
  qed
  have sp: "CallSetFanSpeed i (FanSpeed ! i) \<in> set ?pre"
    if "i < 5" "GetFanSpeed K (?fetched ! i) \<noteq> FanSpeed ! i" for i
    using that assms(3) SetFanSpeed_called [of 0 i ?fetched K] by simp
  have te: "CallSetTemperature i (Temperature ! i) \<in> set ?pre"
    if "i < 5" "GetTemperature K (after_speed K i (?fetched ! i)) \<noteq> Temperature ! i" for i
    using that assms(3) SetTemperature_called [of 0 i ?fetched K] by simp
  show ?thesis
  proof (intro exI [of _ ?l] exI [of _ ?pre] conjI)
    show "\<forall>i < 5. GetFanSpeed K (?fetched ! i) \<noteq> FanSpeed ! i \<longrightarrow>
        CallSetFanSpeed i (FanSpeed ! i) \<in> set ?pre"
      using sp by blast
    show "\<forall>i < 5. GetTemperature K (after_speed K i (?fetched ! i)) \<noteq> Temperature ! i \<longrightarrow>
        CallSetTemperature i (Temperature ! i) \<in> set ?pre"
      using te by blast
    show "(\<forall>v s. GetFanSpeed K (SetFanSpeed K v s) = v) \<and>
      (\<forall>v s. GetTemperature K (SetTemperature K v s) = v) \<and>
      (\<forall>v s. GetFanSpeed K (SetTemperature K v s) = GetFanSpeed K s) \<longrightarrow>
      map (\<lambda>s. (GetFanSpeed K s, GetTemperature K s)) ?l =
        [(25, 45), (45, 50), (50, 65), (65, 85), (90, 95)]"
      using pairs by (rule impI)
  qed (rule tr)
qed

theorem custom_curve_applied_witness:
  "reaches_tuning sdk_ok 1 2 \<and>
   ADLX_SUCCEEDED sdk_ok (fst (GetFanTuningStates sdk_ok)) \<and>
   length (snd (GetFanTuningStates sdk_ok)) = 5 \<and>
   ADLX_SUCCEEDED sdk_ok (IsValidFanTuningStates sdk_ok (states_after_loop sdk_ok)) \<and>
   (\<forall>v s. GetFanSpeed sdk_ok (SetFanSpeed sdk_ok v s) = v) \<and>
   (\<forall>v s. GetTemperature sdk_ok (SetTemperature sdk_ok v s) = v) \<and>
   (\<forall>v s. GetFanSpeed sdk_ok (SetTemperature sdk_ok v s) = GetFanSpeed sdk_ok s) \<and>
   GetFanSpeed sdk_ok (snd (GetFanTuningStates sdk_ok) ! 0) \<noteq> FanSpeed ! 0 \<and>
   GetTemperature sdk_ok (after_speed sdk_ok 1 (snd (GetFanTuningStates sdk_ok) ! 1))
     \<noteq> Temperature ! 1 \<and>
   (\<exists>l pre.
     snd (main sdk_ok) =
       pre @ [CallIsValidFanTuningStates (Some l), CallSetFanTuningStates (Some l), CallTerminate] \<and>
     CallSetFanSpeed 0 (FanSpeed ! 0) \<in> set pre \<and>
     CallSetTemperature 1 (Temperature ! 1) \<in> set pre \<and>
     map (\<lambda>s. (GetFanSpeed sdk_ok s, GetTemperature sdk_ok s)) l =
       [(25, 45), (45, 50), (50, 65), (65, 85), (90, 95)])"
proof -
  have h1: "reaches_tuning sdk_ok 1 2"
    by (simp add: reaches_tuning_def sdk_ok_def)
  have h2: "ADLX_SUCCEEDED sdk_ok (fst (GetFanTuningStates sdk_ok))"
    by (simp add: sdk_ok_def)
  have h3: "length (snd (GetFanTuningStates sdk_ok)) = 5"
    by (simp add: sdk_ok_def)
  have h4: "ADLX_SUCCEEDED sdk_ok (IsValidFanTuningStates sdk_ok (states_after_loop sdk_ok))"
    by (simp add: states_after_loop_def) (simp add: sdk_ok_def)
  have h5: "\<forall>v s. GetFanSpeed sdk_ok (SetFanSpeed sdk_ok v s) = v"
    by (simp add: sdk_ok_def)
  have h6: "\<forall>v s. GetTemperature sdk_ok (SetTemperature sdk_ok v s) = v"
    by (simp add: sdk_ok_def)
  have h7: "\<forall>v s. GetFanSpeed sdk_ok (SetTemperature sdk_ok v s) = GetFanSpeed sdk_ok s"
    by (simp add: sdk_ok_def)
  have d0: "GetFanSpeed sdk_ok (snd (GetFanTuningStates sdk_ok) ! 0) \<noteq> FanSpeed ! 0"
    by (simp add: sdk_ok_def FanSpeed_def)
  have d1: "GetTemperature sdk_ok (after_speed sdk_ok 1 (snd (GetFanTuningStates sdk_ok) ! 1))
      \<noteq> Temperature ! 1"
    by (simp add: sdk_ok_def after_speed_def FanSpeed_def Temperature_def)
  from custom_curve_applied [OF h1 h2 h3 h4] obtain l pre where
    tr: "snd (main sdk_ok) =
       pre @ [CallIsValidFanTuningStates (Some l), CallSetFanTuningStates (Some l), CallTerminate]"
    and sp: "\<forall>i < 5. GetFanSpeed sdk_ok (snd (GetFanTuningStates sdk_ok) ! i) \<noteq> FanSpeed ! i \<longrightarrow>
        CallSetFanSpeed i (FanSpeed ! i) \<in> set pre"
    and te: "\<forall>i < 5. GetTemperature sdk_ok (after_speed sdk_ok i (snd (GetFanTuningStates sdk_ok) ! i))
          \<noteq> Temperature ! i \<longrightarrow>
        CallSetTemperature i (Temperature ! i) \<in> set pre"
    and pr: "(\<forall>v s. GetFanSpeed sdk_ok (SetFanSpeed sdk_ok v s) = v) \<and>
      (\<forall>v s. GetTemperature sdk_ok (SetTemperature sdk_ok v s) = v) \<and>
      (\<forall>v s. GetFanSpeed sdk_ok (SetTemperature sdk_ok v s) = GetFanSpeed sdk_ok s) \<longrightarrow>
      map (\<lambda>s. (GetFanSpeed sdk_ok s, GetTemperature sdk_ok s)) l =
        [(25, 45), (45, 50), (50, 65), (65, 85), (90, 95)]"
    by (elim exE conjE)
  from pr h5 h6 h7 have pairs: "map (\<lambda>s. (GetFanSpeed sdk_ok s, GetTemperature sdk_ok s)) l =
        [(25, 45), (45, 50), (50, 65), (65, 85), (90, 95)]"
    by simp
  from sp [rule_format, of 0] d0 have w0: "CallSetFanSpeed 0 (FanSpeed ! 0) \<in> set pre"
    by simp
  from te [rule_format, of 1] d1 have w1: "CallSetTemperature 1 (Temperature ! 1) \<in> set pre"
    by simp
  have ex: "\<exists>l pre.
     snd (main sdk_ok) =
       pre @ [CallIsValidFanTuningStates (Some l), CallSetFanTuningStates (Some l), CallTerminate] \<and>
     CallSetFanSpeed 0 (FanSpeed ! 0) \<in> set pre \<and>
     CallSetTemperature 1 (Temperature ! 1) \<in> set pre \<and>
     map (\<lambda>s. (GetFanSpeed sdk_ok s, GetTemperature sdk_ok s)) l =
       [(25, 45), (45, 50), (50, 65), (65, 85), (90, 95)]"
    by (intro exI [of _ l] exI [of _ pre] conjI) (rule tr, rule w0, rule w1, rule pairs)
  from h1 h2 h3 h4 h5 h6 h7 d0 d1 ex show ?thesis by (intro conjI)
qed

subsection \<open>C2: the order of the steps\<close>

text \<open>
  As stated, C2 puts the fetch of the capability interface between the fetch of the GPU
  handle and the support check, and lets no step run unless every earlier step
  succeeded. In the run of \<open>sdk_ok\<close>, where every call succeeds, the first six calls are
  \<^verbatim>\<open>Initialize\<close>, \<^verbatim>\<open>GetGPUTuningServices\<close>, \<^verbatim>\<open>GetGPUs\<close>, \<^verbatim>\<open>At(0)\<close>,
  \<^verbatim>\<open>IsSupportedManualFanTuning\<close>, \<^verbatim>\<open>GetManualFanTuning\<close>: the tuning services are fetched
  before the GPU handle and the manual-fan-tuning interface after the support check, so
  neither of the two interfaces is fetched between the GPU handle and the support check.
  In the run of \<open>sdk_no_gpus\<close> the step \<^verbatim>\<open>GetGPUs\<close> fails and the step \<^verbatim>\<open>Terminate\<close> runs
  all the same.
\<close>

theorem main_order_counterexample:
  "take 6 (snd (main sdk_ok)) =
     [CallInitialize, CallGetGPUTuningServices, CallGetGPUs, CallGPUListAt 0,
      CallIsSupportedManualFanTuning 1, CallGetManualFanTuning 1] \<and>
   ADLX_FAILED sdk_no_gpus (GetGPUs sdk_no_gpus) \<and>
   snd (main sdk_no_gpus) =
     [CallInitialize, CallGetGPUTuningServices, CallGetGPUs,
      CallTerminate, CoutRes 0, Cout msg_gpus, SystemPause]"
  by (simp add: run_ok run_no_gpus) (simp add: sdk_no_gpus_def sdk_ok_def)

text \<open>
  C2, amended. The events of every run occur in the order of \<open>phase\<close>: \<^verbatim>\<open>Initialize\<close>, then
  \<^verbatim>\<open>GetGPUTuningServices\<close>, then \<^verbatim>\<open>GetGPUs\<close>, then \<^verbatim>\<open>At(0)\<close>, then the support check, then
  \<^verbatim>\<open>GetManualFanTuning\<close> and the cast of the interface, then the zero-RPM calls, then
  \<^verbatim>\<open>GetFanTuningStates\<close>, the reads and writes of the states, the validation and the
  commit, then \<^verbatim>\<open>Terminate\<close>. A call placed after call number \<open>n\<close> of \<^verbatim>\<open>main\<close> (\<open>n\<close> from 0
  to 6) and up to the commit is made only if the test on call \<open>n\<close> passed. \<^verbatim>\<open>Terminate\<close> is
  called exactly when \<^verbatim>\<open>Initialize\<close> succeeded, also after a later failure.
\<close>

theorem main_order:
  "sorted (map phase (snd (main K))) \<and>
   (\<forall>e \<in> set (snd (main K)). \<forall>n < 7. n < phase e \<and> phase e \<le> 15 \<longrightarrow> check K n) \<and>
   (CallTerminate \<in> set (snd (main K)) \<longleftrightarrow> ADLX_SUCCEEDED K (Initialize K))"
proof (intro conjI ballI allI impI)
  show "sorted (map phase (snd (main K)))" by (rule main_sorted)
next
  fix e n assume "e \<in> set (snd (main K))" "n < 7" "n < phase e \<and> phase e \<le> 15"
  then show "check K n" using main_stops [of K n e] by auto
next
  show "CallTerminate \<in> set (snd (main K)) \<longleftrightarrow> ADLX_SUCCEEDED K (Initialize K)"
    by (cases K rule: main_cases) (simp_all add: check_def setup_calls_def)
qed

theorem main_order_witness:
  "sorted (map phase (snd (main sdk_ok))) \<and>
   CallQueryInterface 2 \<in> set (snd (main sdk_ok)) \<and>
   check sdk_ok 5 \<and>
   ADLX_SUCCEEDED sdk_no_gpus (Initialize sdk_no_gpus) \<and>
   CallTerminate \<in> set (snd (main sdk_no_gpus))"
proof -
  have m: "CallQueryInterface 2 \<in> set (snd (main sdk_ok))"
    by (simp add: run_ok)
  have i: "ADLX_SUCCEEDED sdk_no_gpus (Initialize sdk_no_gpus)"
    by (simp add: sdk_no_gpus_def sdk_ok_def)
  have c: "check sdk_ok 5"
    using main_order [of sdk_ok] m by force
  from main_order [of sdk_ok] main_order [of sdk_no_gpus] m i c
  show ?thesis by blast
qed

subsection \<open>C3: which results are checked\<close>

text \<open>
  As stated, C3 has every result code checked and every failure stop the operations that
  depend on it. In the run of \<open>sdk_no_states\<close>, \<^verbatim>\<open>GetFanTuningStates\<close> fails (both macros say
  so) and \<^verbatim>\<open>IsValidFanTuningStates\<close> is still called, on the null list that the failed
  call left behind.
\<close>

theorem checked_results_counterexample:
  "\<not> ADLX_SUCCEEDED sdk_no_states (fst (GetFanTuningStates sdk_no_states)) \<and>
   ADLX_FAILED sdk_no_states (fst (GetFanTuningStates sdk_no_states)) \<and>
   CallIsValidFanTuningStates None \<in> set (snd (main sdk_no_states))"
  by (simp add: run_no_states) (simp add: sdk_no_states_def sdk_ok_def)

text \<open>
  C3, amended. The program checks the results of the seven calls of \<^verbatim>\<open>main\<close>
  (\<^verbatim>\<open>Initialize\<close>, \<^verbatim>\<open>GetGPUTuningServices\<close>, \<^verbatim>\<open>GetGPUs\<close>, \<^verbatim>\<open>At(0)\<close>,
  \<^verbatim>\<open>IsSupportedManualFanTuning\<close>, \<^verbatim>\<open>GetManualFanTuning\<close>, the cast), of
  \<^verbatim>\<open>IsSupportedZeroRPM\<close>, of \<^verbatim>\<open>GetFanTuningStates\<close> and of \<^verbatim>\<open>IsValidFanTuningStates\<close>. When
  the test on call \<open>n\<close> of \<^verbatim>\<open>main\<close> does not pass, nothing placed after that call runs but
  \<^verbatim>\<open>Terminate\<close> and the console output. When \<^verbatim>\<open>IsSupportedZeroRPM\<close> fails or reports no
  support, the zero-RPM state is neither read nor written. When \<^verbatim>\<open>GetFanTuningStates\<close>
  does not succeed, the list is not measured and no state is read or written. A list
  that \<^verbatim>\<open>IsValidFanTuningStates\<close> does not accept is not committed.
\<close>

theorem checked_results:
  "(\<forall>n < 7. \<not> check K n \<longrightarrow> (\<forall>e \<in> set (snd (main K)). phase e \<le> n \<or> 16 \<le> phase e)) \<and>
   (ADLX_FAILED K (fst (IsSupportedZeroRPM K)) \<or> \<not> snd (IsSupportedZeroRPM K) \<longrightarrow>
      (\<forall>e \<in> set (snd (main K)). phase e \<noteq> 8 \<and> phase e \<noteq> 9)) \<and>
   (\<not> ADLX_SUCCEEDED K (fst (GetFanTuningStates K)) \<longrightarrow>
      (\<forall>e \<in> set (snd (main K)). phase e \<noteq> 11 \<and> phase e \<noteq> 12 \<and> phase e \<noteq> 13)) \<and>
   (\<forall>l. \<not> ADLX_SUCCEEDED K (IsValidFanTuningStates K l) \<longrightarrow>
      CallSetFanTuningStates l \<notin> set (snd (main K)))"
proof (intro conjI allI impI ballI)
  fix n e assume "n < 7" "\<not> check K n" "e \<in> set (snd (main K))"
  then show "phase e \<le> n \<or> 16 \<le> phase e" by (simp add: main_stops)
next
  fix e
  assume z: "ADLX_FAILED K (fst (IsSupportedZeroRPM K)) \<or> \<not> snd (IsSupportedZeroRPM K)"
    and e: "e \<in> set (snd (main K))"
  have f: "e \<in> set (SetZeroRPM K False []) \<Longrightarrow> phase e = 7"
    using z by (auto simp: SetZeroRPM_events)
  from f e phase_SetFan [of e K] show "phase e \<noteq> 8"
    by (cases K rule: main_cases) (auto simp: setup_calls_def)
  from f e phase_SetFan [of e K] show "phase e \<noteq> 9"
    by (cases K rule: main_cases) (auto simp: setup_calls_def)
next
  fix e
  assume g: "\<not> ADLX_SUCCEEDED K (fst (GetFanTuningStates K))"
    and e: "e \<in> set (snd (main K))"
  have f: "e \<in> set (SetFan K []) \<Longrightarrow> phase e = 10 \<or> phase e = 14 \<or> phase e = 15"
    using g by (auto simp: SetFan_events split: if_splits)
  from f e phase_SetZeroRPM [of e K False]
  show "phase e \<noteq> 11" by (cases K rule: main_cases) (auto simp: setup_calls_def)
  from f e phase_SetZeroRPM [of e K False]
  show "phase e \<noteq> 12" by (cases K rule: main_cases) (auto simp: setup_calls_def)
  from f e phase_SetZeroRPM [of e K False]
  show "phase e \<noteq> 13" by (cases K rule: main_cases) (auto simp: setup_calls_def)
next
  fix l
  assume v: "\<not> ADLX_SUCCEEDED K (IsValidFanTuningStates K l)"
  have f: "CallSetFanTuningStates l \<notin> set (SetFan K [])"
    using v phase_SetFan_loop [of "CallSetFanTuningStates l" K]
    by (auto simp: SetFan_events split: if_splits)
  from f phase_SetZeroRPM [of "CallSetFanTuningStates l" K False]
  show "CallSetFanTuningStates l \<notin> set (snd (main K))"
    by (cases K rule: main_cases) (auto simp: setup_calls_def)
qed

theorem checked_results_witness:
  "\<not> check sdk_no_gpus 2 \<and>
   CallGPUListAt 0 \<notin> set (snd (main sdk_no_gpus)) \<and>
   \<not> snd (IsSupportedZeroRPM sdk_no_zero_rpm) \<and>
   CallGetZeroRPMState \<notin> set (snd (main sdk_no_zero_rpm)) \<and>
   \<not> ADLX_SUCCEEDED sdk_no_states (fst (GetFanTuningStates sdk_no_states)) \<and>
   CallSize \<notin> set (snd (main sdk_no_states)) \<and>
   \<not> ADLX_SUCCEEDED sdk_no_states (IsValidFanTuningStates sdk_no_states None) \<and>
   CallSetFanTuningStates None \<notin> set (snd (main sdk_no_states))"
proof -
  have c: "\<not> check sdk_no_gpus 2"
    by (simp add: check_def sdk_no_gpus_def sdk_ok_def)
  have g: "\<not> ADLX_SUCCEEDED sdk_no_states (fst (GetFanTuningStates sdk_no_states))"
    by (simp add: sdk_no_states_def sdk_ok_def)
  have v: "\<not> ADLX_SUCCEEDED sdk_no_states (IsValidFanTuningStates sdk_no_states None)"
    by (simp add: sdk_no_states_def sdk_ok_def)
  note gpus = checked_results [of sdk_no_gpus, THEN conjunct1, rule_format, of 2 "CallGPUListAt 0"]
  note states = checked_results [of sdk_no_states, THEN conjunct2, THEN conjunct2, THEN conjunct1,
      rule_format, of CallSize]
  note commit = checked_results [of sdk_no_states, THEN conjunct2, THEN conjunct2, THEN conjunct2,
      rule_format, of None]
  note zero = checked_results [of sdk_no_zero_rpm, THEN conjunct2, THEN conjunct1,
      rule_format, of CallGetZeroRPMState]
  have z: "\<not> snd (IsSupportedZeroRPM sdk_no_zero_rpm)"
    by (simp add: sdk_no_zero_rpm_def sdk_ok_def)
  have 0: "CallGetZeroRPMState \<notin> set (snd (main sdk_no_zero_rpm))"
    using zero z by auto
  have 1: "CallGPUListAt 0 \<notin> set (snd (main sdk_no_gpus))"
    using gpus c by auto
  have 2: "CallSize \<notin> set (snd (main sdk_no_states))"
    using states g by auto
  have 3: "CallSetFanTuningStates None \<notin> set (snd (main sdk_no_states))"
    using commit v by auto
  from c g v z 0 1 2 3 show ?thesis by (intro conjI)
qed

subsection \<open>C4: the library is torn down\<close>

text \<open>
  C4. On every path on which \<^verbatim>\<open>Initialize\<close> succeeded, the failure branches included,
  \<^verbatim>\<open>Terminate\<close> is called exactly once before \<^verbatim>\<open>main\<close> returns; it is the last SDK call of
  the run.
\<close>

theorem terminate_once:
  assumes "ADLX_SUCCEEDED K (Initialize K)"
  shows "count_list (snd (main K)) CallTerminate = 1 \<and>
         last (filter is_call (snd (main K))) = CallTerminate"
proof (cases K rule: main_cases)
  case init
  with assms show ?thesis by (simp add: check_def)
next
  case (reached gpu ifc)
  then show ?thesis
    by (simp add: setup_calls_def Terminate_notin_tuning)
qed (simp_all add: setup_calls_def)

theorem terminate_once_witness:
  "ADLX_SUCCEEDED sdk_no_gpus (Initialize sdk_no_gpus) \<and>
   count_list (snd (main sdk_no_gpus)) CallTerminate = 1 \<and>
   last (filter is_call (snd (main sdk_no_gpus))) = CallTerminate"
proof -
  have h: "ADLX_SUCCEEDED sdk_no_gpus (Initialize sdk_no_gpus)"
    by (simp add: sdk_no_gpus_def sdk_ok_def)
  show ?thesis using h terminate_once [OF h] by simp
qed

subsection \<open>C5: the first GPU\<close>

text \<open>
  C5. The GPU list is asked for position 0 only, and the GPU that the support check and
  the interface fetch are made on is the handle that \<^verbatim>\<open>At(0)\<close> gave. When \<^verbatim>\<open>At(0)\<close> fails or
  gives a null handle, nothing placed after it runs but \<^verbatim>\<open>Terminate\<close> and the console
  output (no call is made on any GPU, nothing is tuned), and \<^verbatim>\<open>main\<close> returns 0: a run that
  got as far as \<^verbatim>\<open>At(0)\<close> is the four calls, \<^verbatim>\<open>Terminate\<close>, the two messages and the pause.
\<close>

theorem first_gpu:
  "(\<forall>i. CallGPUListAt i \<in> set (snd (main K)) \<longrightarrow> i = 0) \<and>
   (\<forall>g. CallIsSupportedManualFanTuning g \<in> set (snd (main K)) \<or>
         CallGetManualFanTuning g \<in> set (snd (main K)) \<longrightarrow>
         snd (GPUList_At K 0) = Some g) \<and>
   (ADLX_FAILED K (fst (GPUList_At K 0)) \<or> snd (GPUList_At K 0) = None \<longrightarrow>
      (\<forall>e \<in> set (snd (main K)). phase e \<le> 3 \<or> 16 \<le> phase e) \<and>
      fst (main K) = 0 \<and>
      (CallGPUListAt 0 \<in> set (snd (main K)) \<longrightarrow>
         snd (main K) =
           [CallInitialize, CallGetGPUTuningServices, CallGetGPUs, CallGPUListAt 0,
            CallTerminate, CoutRes (Terminate K), Cout msg_gpu, SystemPause]))"
proof (intro conjI allI impI ballI)
  fix i assume "CallGPUListAt i \<in> set (snd (main K))"
  then show "i = 0"
    using phase_SetZeroRPM [of "CallGPUListAt i" K False] phase_SetFan [of "CallGPUListAt i" K]
    by (cases K rule: main_cases) (auto simp: setup_calls_def)
next
  fix g
  assume "CallIsSupportedManualFanTuning g \<in> set (snd (main K)) \<or>
          CallGetManualFanTuning g \<in> set (snd (main K))"
  then show "snd (GPUList_At K 0) = Some g"
    using phase_SetZeroRPM [of "CallIsSupportedManualFanTuning g" K False]
      phase_SetFan [of "CallIsSupportedManualFanTuning g" K]
      phase_SetZeroRPM [of "CallGetManualFanTuning g" K False]
      phase_SetFan [of "CallGetManualFanTuning g" K]
    by (cases K rule: main_cases) (auto simp: setup_calls_def reaches_tuning_def)
next
  assume a: "ADLX_FAILED K (fst (GPUList_At K 0)) \<or> snd (GPUList_At K 0) = None"
  then have c: "\<not> check K 3" by (simp add: check_def)
  show "fst (main K) = 0" by (rule main_returns_0)
  show "snd (main K) =
           [CallInitialize, CallGetGPUTuningServices, CallGetGPUs, CallGPUListAt 0,
            CallTerminate, CoutRes (Terminate K), Cout msg_gpu, SystemPause]"
    if "CallGPUListAt 0 \<in> set (snd (main K))"
    using that c by (cases K rule: main_cases) (auto simp: setup_calls_def)
  fix e assume "e \<in> set (snd (main K))"
  with c show "phase e \<le> 3 \<or> 16 \<le> phase e" by (simp add: main_stops)
qed

theorem first_gpu_witness:
  "CallIsSupportedManualFanTuning 1 \<in> set (snd (main sdk_ok)) \<and>
   snd (GPUList_At sdk_ok 0) = Some 1 \<and>
   ADLX_FAILED sdk_no_gpu (fst (GPUList_At sdk_no_gpu 0)) \<and>
   CallGPUListAt 0 \<in> set (snd (main sdk_no_gpu)) \<and>
   fst (main sdk_no_gpu) = 0 \<and>
   snd (main sdk_no_gpu) =
     [CallInitialize, CallGetGPUTuningServices, CallGetGPUs, CallGPUListAt 0,
      CallTerminate, CoutRes (Terminate sdk_no_gpu), Cout msg_gpu, SystemPause]"
proof -
  have m: "CallIsSupportedManualFanTuning 1 \<in> set (snd (main sdk_ok))"
    by (simp add: run_ok)
  have f: "ADLX_FAILED sdk_no_gpu (fst (GPUList_At sdk_no_gpu 0))"
    by (simp add: sdk_no_gpu_def sdk_ok_def)
  have a: "CallGPUListAt 0 \<in> set (snd (main sdk_no_gpu))"
    by (simp add: run_no_gpu)
  from first_gpu [of sdk_ok] first_gpu [of sdk_no_gpu] m f a
  show ?thesis by blast
qed

subsection \<open>C6: zero RPM\<close>

text \<open>
  As stated, C6 has the zero-RPM state set to disabled whenever zero RPM is supported.
  The program writes only when the value it finds in \<^verbatim>\<open>ZeroRPMenabled\<close> after
  \<^verbatim>\<open>GetZeroRPMState\<close> is \<^verbatim>\<open>true\<close>, and it does not look at the result of that call. In the
  run of \<open>sdk_zero_rpm_read_fails\<close> zero RPM is reported as supported, the read of the
  state fails and leaves the variable at its initial \<^verbatim>\<open>false\<close>, and the program goes on to
  \<^verbatim>\<open>SetFan\<close> without a call of \<^verbatim>\<open>SetZeroRPMState\<close>: nothing is written before
  \<^verbatim>\<open>GetFanTuningStates\<close>.
\<close>

theorem zero_rpm_counterexample:
  "\<not> ADLX_FAILED sdk_zero_rpm_read_fails (fst (IsSupportedZeroRPM sdk_zero_rpm_read_fails)) \<and>
   snd (IsSupportedZeroRPM sdk_zero_rpm_read_fails) \<and>
   ADLX_FAILED sdk_zero_rpm_read_fails (fst (GetZeroRPMState sdk_zero_rpm_read_fails)) \<and>
   take 11 (snd (main sdk_zero_rpm_read_fails)) =
     [CallInitialize, CallGetGPUTuningServices, CallGetGPUs,
      CallGPUListAt 0, CallIsSupportedManualFanTuning 1,
      CallGetManualFanTuning 1, CallQueryInterface 2,
      CallIsSupportedZeroRPM, CallGetZeroRPMState,
      CallGetFanTuningStates, CallSize] \<and>
   CallSetZeroRPMState False \<notin> set (snd (main sdk_zero_rpm_read_fails))"
  by (simp add: run_zero_rpm_read_fails) (simp add: sdk_zero_rpm_read_fails_def sdk_ok_def)

text \<open>
  C6, amended. When the program gets to ask whether zero RPM is supported and the answer
  is yes (the call does not fail and reports support), the run is: the seven calls of
  \<^verbatim>\<open>main\<close>, the support query and the read of the zero-RPM state, the write
  \<^verbatim>\<open>SetZeroRPMState(false)\<close> if and only if the value that the read leaves in
  \<^verbatim>\<open>ZeroRPMenabled\<close> is \<^verbatim>\<open>true\<close> (the result code of the read is not looked at: a state read
  as disabled, or a failed read that leaves the initial \<^verbatim>\<open>false\<close>, leads to no write), and
  only then the calls of \<^verbatim>\<open>SetFan\<close>, which apply the fan curve, and \<^verbatim>\<open>Terminate\<close>. Zero RPM
  is never switched on.
\<close>

theorem zero_rpm_disabled:
  assumes "CallIsSupportedZeroRPM \<in> set (snd (main K))"
    and "\<not> ADLX_FAILED K (fst (IsSupportedZeroRPM K))"
    and "snd (IsSupportedZeroRPM K)"
  shows "(\<exists>gpu ifc. snd (main K) =
           setup_calls gpu ifc @ [CallIsSupportedZeroRPM, CallGetZeroRPMState] @
           (if snd (GetZeroRPMState K) then [CallSetZeroRPMState False] else []) @
           SetFan K [] @ [CallTerminate]) \<and>
         (CallSetZeroRPMState False \<in> set (snd (main K)) \<longleftrightarrow> snd (GetZeroRPMState K)) \<and>
         CallSetZeroRPMState True \<notin> set (snd (main K))"
proof (cases K rule: main_cases)
  case (reached gpu ifc)
  have "CallSetZeroRPMState b \<notin> set (SetFan K [])" for b
    using phase_SetFan [of "CallSetZeroRPMState b" K] by auto
  with reached assms(2,3) show ?thesis
    by (auto simp: SetZeroRPM_events setup_calls_def)
qed (use assms(1) in \<open>simp_all add: setup_calls_def\<close>)

theorem zero_rpm_disabled_witness:
  "CallIsSupportedZeroRPM \<in> set (snd (main sdk_ok)) \<and>
   \<not> ADLX_FAILED sdk_ok (fst (IsSupportedZeroRPM sdk_ok)) \<and>
   snd (IsSupportedZeroRPM sdk_ok) \<and>
   snd (GetZeroRPMState sdk_ok) \<and>
   (\<exists>gpu ifc. snd (main sdk_ok) =
      setup_calls gpu ifc @ [CallIsSupportedZeroRPM, CallGetZeroRPMState] @
      (if snd (GetZeroRPMState sdk_ok) then [CallSetZeroRPMState False] else []) @
      SetFan sdk_ok [] @ [CallTerminate]) \<and>
   CallSetZeroRPMState False \<in> set (snd (main sdk_ok)) \<and>
   CallSetZeroRPMState True \<notin> set (snd (main sdk_ok))"
proof -
  have h1: "CallIsSupportedZeroRPM \<in> set (snd (main sdk_ok))"
    by (simp add: run_ok)
  have h2: "\<not> ADLX_FAILED sdk_ok (fst (IsSupportedZeroRPM sdk_ok))"
    by (simp add: sdk_ok_def)
  have h3: "snd (IsSupportedZeroRPM sdk_ok)"
    by (simp add: sdk_ok_def)
  have h4: "snd (GetZeroRPMState sdk_ok)"
    by (simp add: sdk_ok_def)
  from h1 h2 h3 h4 zero_rpm_disabled [OF h1 h2 h3]
  show ?thesis by (intro conjI) blast+
qed

subsection \<open>C7: support is checked before any write\<close>

text \<open>
  C7. When the support query on the selected GPU fails or reports no support, the run
  holds no write (no zero-RPM write, no write to a fan-tuning state, no commit) and
  \<^verbatim>\<open>main\<close> returns 0; a run that made the query is the five calls up to it, \<^verbatim>\<open>Terminate\<close>,
  the two messages and the pause. In every run, a write comes after a support query.
\<close>

theorem support_checked_first:
  "(\<forall>gpu. snd (GPUList_At K 0) = Some gpu \<and>
        (ADLX_FAILED K (fst (IsSupportedManualFanTuning K gpu)) \<or>
         \<not> snd (IsSupportedManualFanTuning K gpu)) \<longrightarrow>
      \<not> list_ex is_mutation (snd (main K)) \<and>
      fst (main K) = 0 \<and>
      (CallIsSupportedManualFanTuning gpu \<in> set (snd (main K)) \<longrightarrow>
         snd (main K) =
           [CallInitialize, CallGetGPUTuningServices, CallGetGPUs, CallGPUListAt 0,
            CallIsSupportedManualFanTuning gpu,
            CallTerminate, CoutRes (Terminate K), Cout msg_unsupported, SystemPause])) \<and>
   (\<forall>e \<in> set (snd (main K)). is_mutation e \<longrightarrow>
      (\<exists>gpu. CallIsSupportedManualFanTuning gpu \<in> set (takeWhile (\<lambda>x. x \<noteq> e) (snd (main K)))))"
proof (intro conjI allI impI ballI)
  fix gpu
  assume a: "snd (GPUList_At K 0) = Some gpu \<and>
        (ADLX_FAILED K (fst (IsSupportedManualFanTuning K gpu)) \<or>
         \<not> snd (IsSupportedManualFanTuning K gpu))"
  then have c: "\<not> check K 4" by (simp add: check_def)
  show "fst (main K) = 0" by (rule main_returns_0)
  have "\<not> is_mutation e" if "e \<in> set (snd (main K))" for e
    using main_stops [OF c _ that] mutation_phase [of e] by auto
  then show "\<not> list_ex is_mutation (snd (main K))"
    by (auto simp: list_ex_iff)
  show "snd (main K) =
           [CallInitialize, CallGetGPUTuningServices, CallGetGPUs, CallGPUListAt 0,
            CallIsSupportedManualFanTuning gpu,
            CallTerminate, CoutRes (Terminate K), Cout msg_unsupported, SystemPause]"
    if "CallIsSupportedManualFanTuning gpu \<in> set (snd (main K))"
    using that c a by (cases K rule: main_cases) (auto simp: setup_calls_def)
next
  fix e assume e: "e \<in> set (snd (main K))" and m: "is_mutation e"
  show "\<exists>gpu. CallIsSupportedManualFanTuning gpu \<in> set (takeWhile (\<lambda>x. x \<noteq> e) (snd (main K)))"
  proof (cases K rule: main_cases)
    case (reached gpu ifc)
    have "\<forall>x \<in> set (setup_calls gpu ifc). x \<noteq> e"
      using phase_setup_calls [of e gpu ifc] mutation_phase [OF m] by auto
    then have "takeWhile (\<lambda>x. x \<noteq> e) (snd (main K)) =
        setup_calls gpu ifc @
        takeWhile (\<lambda>x. x \<noteq> e) (SetZeroRPM K False [] @ SetFan K [] @ [CallTerminate])"
      by (simp add: reached)
    then show ?thesis by (auto simp: setup_calls_def)
  qed (use e mutation_phase [OF m] in \<open>auto simp: setup_calls_def\<close>)
qed

theorem support_checked_first_witness:
  "snd (GPUList_At sdk_unsupported 0) = Some 1 \<and>
   \<not> snd (IsSupportedManualFanTuning sdk_unsupported 1) \<and>
   CallIsSupportedManualFanTuning 1 \<in> set (snd (main sdk_unsupported)) \<and>
   \<not> list_ex is_mutation (snd (main sdk_unsupported)) \<and>
   fst (main sdk_unsupported) = 0 \<and>
   snd (main sdk_unsupported) =
     [CallInitialize, CallGetGPUTuningServices, CallGetGPUs, CallGPUListAt 0,
      CallIsSupportedManualFanTuning 1,
      CallTerminate, CoutRes (Terminate sdk_unsupported), Cout msg_unsupported, SystemPause] \<and>
   CallSetZeroRPMState False \<in> set (snd (main sdk_ok)) \<and>
   (\<exists>gpu. CallIsSupportedManualFanTuning gpu
      \<in> set (takeWhile (\<lambda>x. x \<noteq> CallSetZeroRPMState False) (snd (main sdk_ok))))"
proof -
  have g: "snd (GPUList_At sdk_unsupported 0) = Some 1"
    by (simp add: sdk_unsupported_def sdk_ok_def)
  have u: "\<not> snd (IsSupportedManualFanTuning sdk_unsupported 1)"
    by (simp add: sdk_unsupported_def sdk_ok_def)
  have q: "CallIsSupportedManualFanTuning 1 \<in> set (snd (main sdk_unsupported))"
    by (simp add: run_unsupported)
  have w: "CallSetZeroRPMState False \<in> set (snd (main sdk_ok))"
    by (simp add: run_ok)
  have m: "is_mutation (CallSetZeroRPMState False :: (int \<times> int) event)"
    by simp
  from support_checked_first [of sdk_unsupported] support_checked_first [of sdk_ok] g u q w m
  show ?thesis by (intro conjI) blast+
qed

subsection \<open>C8: the exit code\<close>

text \<open>
  C8. On every execution path (success, failed initialisation, any failure in between)
  the exit code that \<^verbatim>\<open>main\<close> returns is 0.
\<close>

theorem main_exit_code: "fst (main K) = 0"
  by (cases K rule: main_cases) simp_all

subsection \<open>C9: a write follows a read that shows a difference\<close>

text \<open>
  C9. \<^verbatim>\<open>SetZeroRPMState\<close> is called only with the target and only when the state read
  differs from it (in a run of the program the target is \<open>False\<close>). \<^verbatim>\<open>SetFanSpeed\<close> is called
  on state \<open>i\<close> only with the target speed of \<open>i\<close> and only when the speed read from the
  fetched state differs from it; \<^verbatim>\<open>SetTemperature\<close> only with the target temperature of
  \<open>i\<close> and only when the temperature read from that state (as the speed write, if any,
  left it) differs from it. For a state that already reads as its target pair the loop
  body makes the two reads and no write, and leaves the state as it is.
\<close>

theorem writes_only_on_difference:
  "(\<forall>b en. CallSetZeroRPMState b \<in> set (SetZeroRPM K en []) \<longrightarrow>
      b = en \<and> snd (GetZeroRPMState K) \<noteq> en) \<and>
   (\<forall>b. CallSetZeroRPMState b \<in> set (snd (main K)) \<longrightarrow>
      b = False \<and> snd (GetZeroRPMState K) \<noteq> False) \<and>
   (\<forall>i v. CallSetFanSpeed i v \<in> set (snd (main K)) \<longrightarrow>
      i < 5 \<and> v = FanSpeed ! i \<and> GetFanSpeed K (snd (GetFanTuningStates K) ! i) \<noteq> v) \<and>
   (\<forall>i v. CallSetTemperature i v \<in> set (snd (main K)) \<longrightarrow>
      i < 5 \<and> v = Temperature ! i \<and>
      GetTemperature K (after_speed K i (snd (GetFanTuningStates K) ! i)) \<noteq> v) \<and>
   (\<forall>i s t. GetFanSpeed K s = FanSpeed ! i \<and> GetTemperature K s = Temperature ! i \<longrightarrow>
      SetFan_state K i s t = (s, t @ [CallGetFanSpeed i, CallGetTemperature i]))"
proof (intro conjI allI impI)
  fix b en assume "CallSetZeroRPMState b \<in> set (SetZeroRPM K en [])"
  then show "b = en" "snd (GetZeroRPMState K) \<noteq> en"
    by (simp_all add: SetZeroRPMState_in_SetZeroRPM)
next
  fix b assume "CallSetZeroRPMState b \<in> set (snd (main K))"
  then have "CallSetZeroRPMState b \<in> set (SetZeroRPM K False [])"
    using in_main_tuning [of "CallSetZeroRPMState b" K] phase_SetFan [of "CallSetZeroRPMState b" K]
    by auto
  then show "b = False" "snd (GetZeroRPMState K) \<noteq> False"
    using SetZeroRPMState_in_SetZeroRPM [of b K False] by simp_all
next
  fix i v assume "CallSetFanSpeed i v \<in> set (snd (main K))"
  then have "CallSetFanSpeed i v \<in> set (SetFan K [])"
    using in_main_tuning [of "CallSetFanSpeed i v" K]
      phase_SetZeroRPM [of "CallSetFanSpeed i v" K False] by auto
  then show "i < 5" "v = FanSpeed ! i" "GetFanSpeed K (snd (GetFanTuningStates K) ! i) \<noteq> v"
    using SetFanSpeed_in_SetFan [of i v K] by simp_all
next
  fix i v assume "CallSetTemperature i v \<in> set (snd (main K))"
  then have "CallSetTemperature i v \<in> set (SetFan K [])"
    using in_main_tuning [of "CallSetTemperature i v" K]
      phase_SetZeroRPM [of "CallSetTemperature i v" K False] by auto
  then show "i < 5" "v = Temperature ! i"
    "GetTemperature K (after_speed K i (snd (GetFanTuningStates K) ! i)) \<noteq> v"
    using SetTemperature_in_SetFan [of i v K] by simp_all
next
  fix i s t assume "GetFanSpeed K s = FanSpeed ! i \<and> GetTemperature K s = Temperature ! i"
  then show "SetFan_state K i s t = (s, t @ [CallGetFanSpeed i, CallGetTemperature i])"
    by (simp add: SetFan_state_def)
qed

theorem writes_only_on_difference_witness:
  "CallSetZeroRPMState False \<in> set (SetZeroRPM sdk_ok False []) \<and>
   CallSetZeroRPMState False \<in> set (snd (main sdk_ok)) \<and>
   snd (GetZeroRPMState sdk_ok) \<noteq> False \<and>
   CallSetFanSpeed 0 25 \<in> set (snd (main sdk_ok)) \<and>
   25 = FanSpeed ! 0 \<and>
   GetFanSpeed sdk_ok (snd (GetFanTuningStates sdk_ok) ! 0) \<noteq> 25 \<and>
   CallSetTemperature 1 50 \<in> set (snd (main sdk_ok)) \<and>
   50 = Temperature ! 1 \<and>
   GetTemperature sdk_ok (after_speed sdk_ok 1 (snd (GetFanTuningStates sdk_ok) ! 1)) \<noteq> 50 \<and>
   GetFanSpeed sdk_ok (50, 65) = FanSpeed ! 2 \<and>
   GetTemperature sdk_ok (50, 65) = Temperature ! 2 \<and>
   SetFan_state sdk_ok 2 (50, 65) [CallAt 2] =
     ((50, 65), [CallAt 2] @ [CallGetFanSpeed 2, CallGetTemperature 2])"
proof -
  have z: "CallSetZeroRPMState False \<in> set (snd (main sdk_ok))"
    by (simp add: run_ok)
  have y: "CallSetZeroRPMState False \<in> set (SetZeroRPM sdk_ok False [])"
    by (simp add: SetZeroRPM_ok)
  have s: "CallSetFanSpeed 0 25 \<in> set (snd (main sdk_ok))"
    by (simp add: run_ok)
  have t: "CallSetTemperature 1 50 \<in> set (snd (main sdk_ok))"
    by (simp add: run_ok)
  have e: "GetFanSpeed sdk_ok (50, 65) = FanSpeed ! 2"
    "GetTemperature sdk_ok (50, 65) = Temperature ! 2"
    by (simp_all add: sdk_ok_def FanSpeed_def Temperature_def)
  from writes_only_on_difference [of sdk_ok] y z s t e
  show ?thesis by (intro conjI) blast+
qed

subsection \<open>C10: five states, and the commit\<close>

text \<open>
  C10. \<^verbatim>\<open>SetFan\<close> writes to a state only when \<^verbatim>\<open>GetFanTuningStates\<close> succeeded and the
  fetched list has exactly five states. When the list has another size, the list handed
  to the validation is the fetched list, unchanged. In every case \<^verbatim>\<open>SetFan\<close> validates
  exactly one list (its pointer \<^verbatim>\<open>states\<close>, modified or not), and it commits a list if and
  only if this is that list and \<^verbatim>\<open>IsValidFanTuningStates\<close> returned success on it.
\<close>

theorem mutation_needs_five_states:
  "(\<forall>i v. CallSetFanSpeed i v \<in> set (SetFan K []) \<or> CallSetTemperature i v \<in> set (SetFan K []) \<longrightarrow>
      ADLX_SUCCEEDED K (fst (GetFanTuningStates K)) \<and> length (snd (GetFanTuningStates K)) = 5) \<and>
   (ADLX_SUCCEEDED K (fst (GetFanTuningStates K)) \<and> length (snd (GetFanTuningStates K)) \<noteq> 5 \<longrightarrow>
      CallIsValidFanTuningStates (Some (snd (GetFanTuningStates K))) \<in> set (SetFan K [])) \<and>
   (\<exists>l. (\<forall>l'. CallIsValidFanTuningStates l' \<in> set (SetFan K []) \<longleftrightarrow> l' = l) \<and>
        (\<forall>l'. CallSetFanTuningStates l' \<in> set (SetFan K []) \<longleftrightarrow>
           l' = l \<and> ADLX_SUCCEEDED K (IsValidFanTuningStates K l)))"
proof (intro conjI allI impI)
  fix i v
  assume "CallSetFanSpeed i v \<in> set (SetFan K []) \<or> CallSetTemperature i v \<in> set (SetFan K [])"
  then show "ADLX_SUCCEEDED K (fst (GetFanTuningStates K))" "length (snd (GetFanTuningStates K)) = 5"
    using SetFanSpeed_in_SetFan [of i v K] SetTemperature_in_SetFan [of i v K] by auto
next
  assume "ADLX_SUCCEEDED K (fst (GetFanTuningStates K)) \<and> length (snd (GetFanTuningStates K)) \<noteq> 5"
  then show "CallIsValidFanTuningStates (Some (snd (GetFanTuningStates K))) \<in> set (SetFan K [])"
    by (simp add: SetFan_events states_after_loop_def)
next
  have 1: "CallIsValidFanTuningStates l' \<in> set (SetFan K []) \<longleftrightarrow> l' = states_after_loop K" for l'
    using phase_SetFan_loop [of "CallIsValidFanTuningStates l'" K]
    by (auto simp: SetFan_events)
  have 2: "CallSetFanTuningStates l' \<in> set (SetFan K []) \<longleftrightarrow>
      l' = states_after_loop K \<and> ADLX_SUCCEEDED K (IsValidFanTuningStates K (states_after_loop K))" for l'
    using phase_SetFan_loop [of "CallSetFanTuningStates l'" K]
    by (auto simp: SetFan_events)
  from 1 2 show "\<exists>l. (\<forall>l'. CallIsValidFanTuningStates l' \<in> set (SetFan K []) \<longleftrightarrow> l' = l) \<and>
        (\<forall>l'. CallSetFanTuningStates l' \<in> set (SetFan K []) \<longleftrightarrow>
           l' = l \<and> ADLX_SUCCEEDED K (IsValidFanTuningStates K l))"
    by blast
qed

theorem mutation_needs_five_states_witness:
  "CallSetFanSpeed 0 25 \<in> set (SetFan sdk_ok []) \<and>
   ADLX_SUCCEEDED sdk_ok (fst (GetFanTuningStates sdk_ok)) \<and>
   length (snd (GetFanTuningStates sdk_ok)) = 5 \<and>
   ADLX_SUCCEEDED sdk_four_states (fst (GetFanTuningStates sdk_four_states)) \<and>
   length (snd (GetFanTuningStates sdk_four_states)) \<noteq> 5 \<and>
   CallIsValidFanTuningStates (Some (snd (GetFanTuningStates sdk_four_states)))
     \<in> set (SetFan sdk_four_states [])"
proof -
  have w: "CallSetFanSpeed 0 25 \<in> set (SetFan sdk_ok [])"
    by (simp add: SetFan_ok)
  have s: "ADLX_SUCCEEDED sdk_four_states (fst (GetFanTuningStates sdk_four_states))"
    by (simp add: sdk_four_states_def sdk_ok_def)
  have n: "length (snd (GetFanTuningStates sdk_four_states)) \<noteq> 5"
    by (simp add: sdk_four_states_def sdk_ok_def)
  from mutation_needs_five_states [of sdk_ok] mutation_needs_five_states [of sdk_four_states] w s n
  show ?thesis by (intro conjI) blast+
qed

end
